theory Spec2Isabelle
  imports Main "HOL-Library.AList" "HOL-Library.Sublist"
begin

section \<open>Values exchanged with the upstreams\<close>

text \<open>
  The gateway of \<^verbatim>\<open>src/api/server.py\<close> handles decoded JSON: Python's \<^verbatim>\<open>None\<close>,
  \<^verbatim>\<open>bool\<close>, \<^verbatim>\<open>int\<close>, \<^verbatim>\<open>float\<close>, \<^verbatim>\<open>str\<close>, \<^verbatim>\<open>list\<close> and \<^verbatim>\<open>dict\<close>. A \<^verbatim>\<open>dict\<close> is an
  association list in insertion order. A \<^verbatim>\<open>str\<close> is a \<open>string\<close> whose characters are read as
  the code points 0 to 255. A finite float is \<open>m * 2 ^ e\<close>.
\<close>

datatype pyfloat = Float int int | PosInf | NegInf | NaN

datatype json =
    JNull
  | JBool bool
  | JInt int
  | JFloat pyfloat
  | JStr string
  | JArr "json list"
  | JObj "(string \<times> json) list"

text \<open>Python's truth value of an object, as \<^verbatim>\<open>not x\<close> and \<^verbatim>\<open>x or y\<close> read it.\<close>

fun truthy :: "json \<Rightarrow> bool" where
  "truthy JNull = False"
| "truthy (JBool b) = b"
| "truthy (JInt i) = (i \<noteq> 0)"
| "truthy (JFloat f) = (case f of Float m e \<Rightarrow> m \<noteq> 0 | _ \<Rightarrow> True)"
| "truthy (JStr s) = (s \<noteq> [])"
| "truthy (JArr xs) = (xs \<noteq> [])"
| "truthy (JObj kvs) = (kvs \<noteq> [])"

definition py_or :: "json \<Rightarrow> json \<Rightarrow> json" where
  "py_or a b = (if truthy a then a else b)"

text \<open>\<^verbatim>\<open>d.get(k)\<close>: the value, or \<^verbatim>\<open>None\<close> for a key that is absent.\<close>

definition dict_get :: "(string \<times> json) list \<Rightarrow> string \<Rightarrow> json" where
  "dict_get d k = (case map_of d k of None \<Rightarrow> JNull | Some v \<Rightarrow> v)"

text \<open>\<^verbatim>\<open>d[k] = v\<close>: an existing key keeps its place, a new one goes last.\<close>

definition dict_set :: "(string \<times> json) list \<Rightarrow> string \<Rightarrow> json \<Rightarrow> (string \<times> json) list" where
  "dict_set d k v = AList.update k v d"

text \<open>
  \<^verbatim>\<open>isinstance(x, int)\<close> holds of a \<^verbatim>\<open>bool\<close> too (\<^verbatim>\<open>bool\<close> is a subclass of \<^verbatim>\<open>int\<close>);
  \<^verbatim>\<open>int(x)\<close> of such a value is the integer, with \<^verbatim>\<open>True\<close> as 1.
\<close>

fun isinstance_int :: "json \<Rightarrow> bool" where
  "isinstance_int (JInt i) = True"
| "isinstance_int (JBool b) = True"
| "isinstance_int v = False"

fun py_int :: "json \<Rightarrow> int" where
  "py_int (JInt i) = i"
| "py_int (JBool b) = (if b then 1 else 0)"
| "py_int v = 0"

section \<open>Strings\<close>

text \<open>\<^verbatim>\<open>str.isspace\<close> on the code points below 256, which \<^verbatim>\<open>str.strip()\<close> removes.\<close>

definition isspace :: "char \<Rightarrow> bool" where
  "isspace c \<longleftrightarrow>
     c \<in> set [CHR 0x09, CHR 0x0A, CHR 0x0B, CHR 0x0C, CHR 0x0D, CHR 0x1C, CHR 0x1D, CHR 0x1E,
               CHR 0x1F, CHR 0x20, CHR 0x85, CHR 0xA0]"

definition strip :: "string \<Rightarrow> string" where
  "strip s = rev (dropWhile isspace (rev (dropWhile isspace s)))"

text \<open>\<^verbatim>\<open>s.rstrip("/")\<close>.\<close>

definition rstrip_slash :: "string \<Rightarrow> string" where
  "rstrip_slash s = rev (dropWhile (\<lambda>c. c = CHR ''/'') (rev s))"

definition startswith :: "string \<Rightarrow> string \<Rightarrow> bool" where
  "startswith s p = prefix p s"

text \<open>\<^verbatim>\<open>sub in s\<close> for strings.\<close>

fun contains :: "string \<Rightarrow> string \<Rightarrow> bool" where
  "contains [] sub = (sub = [])"
| "contains (c # cs) sub = (prefix sub (c # cs) \<or> contains cs sub)"

text \<open>\<^verbatim>\<open>str(n)\<close> of an integer.\<close>

fun str_nat :: "nat \<Rightarrow> string" where
  "str_nat n =
     (if n < 10 then [''0123456789'' ! n]
      else str_nat (n div 10) @ [''0123456789'' ! (n mod 10)])"

definition str_int :: "int \<Rightarrow> string" where
  "str_int i = (if i < 0 then CHR ''-'' # str_nat (nat (- i)) else str_nat (nat i))"

text \<open>\<^verbatim>\<open>s.replace(old, new)\<close>, all occurrences from the left, not overlapping.\<close>

function replace :: "string \<Rightarrow> string \<Rightarrow> string \<Rightarrow> string" where
  "replace old new s =
     (if old = [] then new @ concat (map (\<lambda>c. c # new) s)
      else if s = [] then []
      else if prefix old s then new @ replace old new (drop (length old) s)
      else hd s # replace old new (tl s))"
  by pat_completeness auto
termination
  by (relation "measure (\<lambda>(old, new, s). length s)") auto

declare replace.simps [simp del]

section \<open>Failures\<close>

text \<open>
  A handler fails by raising. \<open>HTTPException status detail\<close> is FastAPI's exception, which
  the framework answers with that status; \<open>Unhandled\<close> is any other exception that leaves
  the handler.
\<close>

datatype failure = HTTPException int json | Unhandled string

section \<open>The world outside the process\<close>

record http_request =
  req_method :: string
  req_url :: string
  req_params :: "(string \<times> json) list option"
  req_json :: json
  req_headers :: "(string \<times> string) list"

record response =
  status_code :: int
  resp_text :: string

text \<open>
  What \<^verbatim>\<open>client.request\<close> does with a request handed to it: it raises an
  \<^verbatim>\<open>httpx.RequestError\<close> (with its message), it raises an exception of another class (such as
  \<^verbatim>\<open>httpx.InvalidURL\<close> for a URL it cannot parse), or it returns a response.
\<close>

datatype net_outcome = RequestError string | OtherError string | Response response

datatype path = Path string | Child path string

fun path_str :: "path \<Rightarrow> string" where
  "path_str (Path s) = s"
| "path_str (Child p name) = path_str p @ ''/'' @ name"

record completed_process =
  returncode :: int
  stdout :: string
  stderr :: string

text \<open>
  What \<^verbatim>\<open>subprocess.run(cmd, cwd=..., capture_output=True, text=True)\<close> does: it raises before
  the program runs (the program or the directory is missing, an argument holds a null
  character); the program runs and exits with a code, but its output is not text in the
  locale's encoding, and decoding raises; or it returns the completed process with the
  output as text. An exception comes with its text.
\<close>

datatype run_outcome =
    Not_started string
  | Undecodable int string
  | Completed completed_process

text \<open>
  Every effect of a handler is an event appended to a history: a request handed to the HTTP
  client for a named upstream, a reading of the clock, a call of \<^verbatim>\<open>subprocess.run\<close>, a path
  probed, created or read. The history is the state the handlers pass along.
\<close>

datatype event =
    Sent string http_request
  | Now_utc int
  | Spawned "string list" string
  | Probed path
  | Made_dir path
  | Read_text path

type_synonym world = "event list"

text \<open>
  The environment: the process environment variables, the two directories as the module
  computes them at import, and what the libraries and the operating system answer. An
  answer may depend on the history so far. \<open>json_loads\<close> is the JSON decoder behind
  \<^verbatim>\<open>Response.json()\<close>: the error text when it raises, else the value. \<open>clock\<close> reads the wall
  clock in microseconds, \<open>isoformat\<close> is \<^verbatim>\<open>datetime.isoformat\<close> of a UTC instant, and
  \<open>py_repr\<close> is \<^verbatim>\<open>str\<close> on a float, a list or a dict. The file system may raise:
  \<open>path_exists\<close> is \<^verbatim>\<open>Path.exists()\<close> and \<open>read_text\<close> is \<^verbatim>\<open>Path.read_text()\<close>, each the
  text of the exception or the answer, and \<open>mkdir\<close> is
  \<^verbatim>\<open>Path.mkdir(parents=True, exist_ok=True)\<close>, the text of the exception if there is one.
\<close>

record env =
  getenv :: "string \<Rightarrow> string option"
  EVAL_SERVICE_DIR :: path
  EVAL_RUNS_DIR :: path
  sys_executable :: string
  net :: "world \<Rightarrow> http_request \<Rightarrow> net_outcome"
  json_loads :: "string \<Rightarrow> string + json"
  py_repr :: "json \<Rightarrow> string"
  clock :: "world \<Rightarrow> int"
  isoformat :: "int \<Rightarrow> string"
  path_exists :: "world \<Rightarrow> path \<Rightarrow> string + bool"
  mkdir :: "world \<Rightarrow> path \<Rightarrow> string option"
  read_text :: "world \<Rightarrow> path \<Rightarrow> string + string"
  subprocess_run :: "world \<Rightarrow> string list \<Rightarrow> string \<Rightarrow> run_outcome"

text \<open>The requests of a history that went to the upstream of a given name.\<close>

fun sent_to :: "string \<Rightarrow> world \<Rightarrow> http_request list" where
  "sent_to u [] = []"
| "sent_to u (Sent u' r # es) = (if u' = u then r # sent_to u es else sent_to u es)"
| "sent_to u (e # es) = sent_to u es"

section \<open>Configuration (lines 22 to 39)\<close>

text \<open>\<^verbatim>\<open>os.getenv(name) or default\<close>.\<close>

definition getenv_or :: "env \<Rightarrow> string \<Rightarrow> string \<Rightarrow> string" where
  "getenv_or env name dflt =
     (case getenv env name of None \<Rightarrow> dflt | Some v \<Rightarrow> if v = [] then dflt else v)"

definition clean_base_url :: "string \<Rightarrow> string" where
  "clean_base_url raw = (let v = strip raw in if v \<noteq> [] then rstrip_slash v else [])"

text \<open>\<^verbatim>\<open>(os.getenv(name) or "").strip() or None\<close>.\<close>

definition api_key :: "env \<Rightarrow> string \<Rightarrow> string option" where
  "api_key env name = (let v = strip (getenv_or env name []) in if v = [] then None else Some v)"

definition REGISTRY_URL :: "env \<Rightarrow> string" where
  "REGISTRY_URL env = clean_base_url (getenv_or env ''CAIA_REGISTRY_URL'' ''http://127.0.0.1:8001'')"

definition REGISTRY_API_KEY :: "env \<Rightarrow> string option" where
  "REGISTRY_API_KEY env = api_key env ''CAIA_REGISTRY_API_KEY''"

definition ARTIFACT_CACHE_URL :: "env \<Rightarrow> string" where
  "ARTIFACT_CACHE_URL env =
     clean_base_url (getenv_or env ''CAIA_ARTIFACT_CACHE_URL'' ''http://127.0.0.1:8002'')"

definition ARTIFACT_CACHE_API_KEY :: "env \<Rightarrow> string option" where
  "ARTIFACT_CACHE_API_KEY env = api_key env ''CAIA_ARTIFACT_CACHE_API_KEY''"

definition ONYX_API_URL :: "env \<Rightarrow> string" where
  "ONYX_API_URL env = clean_base_url (getenv_or env ''CAIA_ONYX_API_URL'' ''http://127.0.0.1:8000'')"

definition ONYX_API_KEY :: "env \<Rightarrow> string option" where
  "ONYX_API_KEY env = api_key env ''CAIA_ONYX_API_KEY''"

section \<open>The upstream client (lines 72 to 138)\<close>

text \<open>
  Python's leading underscore is dropped from the names: \<open>request_upstream\<close> is
  \<^verbatim>\<open>_request_upstream\<close>, and so on. A header dictionary that is \<^verbatim>\<open>None\<close> or empty is \<open>[]\<close>.
\<close>

definition require_registry_key :: "env \<Rightarrow> failure + string" where
  "require_registry_key env =
     (case REGISTRY_API_KEY env of
        None \<Rightarrow> Inl (HTTPException 503 (JStr ''CAIA_REGISTRY_API_KEY not set for dashboard API''))
      | Some k \<Rightarrow> Inr k)"

definition request_upstream ::
  "env \<Rightarrow> string \<Rightarrow> string \<Rightarrow> string \<Rightarrow> string \<Rightarrow> (string \<times> json) list option \<Rightarrow> json \<Rightarrow>
   (string \<times> string) list \<Rightarrow> world \<Rightarrow> (failure + json) \<times> world" where
  "request_upstream env upstream base_url method path params json_body headers w =
     (if base_url = [] then
        (Inl (HTTPException 503 (JStr (upstream @ '' base URL not configured''))), w)
      else
        let req = \<lparr>req_method = method, req_url = base_url @ path, req_params = params,
                   req_json = json_body, req_headers = headers\<rparr>;
            w' = w @ [Sent upstream req]
        in case net env w req of
             RequestError e \<Rightarrow>
               (Inl (HTTPException 502 (JStr (upstream @ '' request failed: '' @ e))), w')
           | OtherError e \<Rightarrow> (Inl (Unhandled e), w')
           | Response resp \<Rightarrow>
               if status_code resp \<ge> 400 then
                 let payload =
                       (case json_loads env (resp_text resp) of
                          Inr v \<Rightarrow> v
                        | Inl e \<Rightarrow> JObj [(''detail'', JStr (resp_text resp))])
                 in (Inl (HTTPException (status_code resp)
                            (JObj [(''upstream'', JStr upstream), (''error'', payload)])), w')
               else if status_code resp = 204 then (Inr JNull, w')
               else
                 (case json_loads env (resp_text resp) of
                    Inr v \<Rightarrow> (Inr v, w')
                  | Inl e \<Rightarrow>
                      (Inl (HTTPException 502
                              (JStr (upstream @ '' returned invalid JSON: '' @ e))), w')))"

definition registry_request ::
  "env \<Rightarrow> string \<Rightarrow> string \<Rightarrow> (string \<times> json) list option \<Rightarrow> json \<Rightarrow> bool \<Rightarrow> world \<Rightarrow>
   (failure + json) \<times> world" where
  "registry_request env method path params json_body require_key w =
     (if require_key then
        (case require_registry_key env of
           Inl e \<Rightarrow> (Inl e, w)
         | Inr k \<Rightarrow>
             request_upstream env ''model-registry'' (REGISTRY_URL env) method path params
               json_body [(''X-API-Key'', k)] w)
      else
        request_upstream env ''model-registry'' (REGISTRY_URL env) method path params
          json_body [] w)"

definition now_utc_iso :: "env \<Rightarrow> world \<Rightarrow> string \<times> world" where
  "now_utc_iso env w =
     (let t = clock env w
      in (replace ''+00:00'' ''Z'' (isoformat env t), w @ [Now_utc t]))"

definition safe_run_id :: "string \<Rightarrow> failure + string" where
  "safe_run_id raw =
     (let s = strip raw
      in if s = [] then Inl (HTTPException 400 (JStr ''eval_run_id is required''))
         else if list_ex (\<lambda>c. contains s c) [''/'', [CHR 0x5C], [CHR 0x00]]
           then Inl (HTTPException 400 (JStr ''Invalid eval_run_id''))
         else Inr s)"

section \<open>Aggregate health (lines 150 to 211)\<close>

text \<open>
  \<^verbatim>\<open>try: d = call(); ok = True / except HTTPException as e: d = e.detail\<close>: the flag and
  the detail, or the exception that the \<^verbatim>\<open>except\<close> clause does not catch.
\<close>

fun caught :: "failure + json \<Rightarrow> failure + bool \<times> json" where
  "caught (Inr v) = Inr (True, v)"
| "caught (Inl (HTTPException s d)) = Inr (False, d)"
| "caught (Inl (Unhandled m)) = Inl (Unhandled m)"

definition health :: "env \<Rightarrow> world \<Rightarrow> (failure + json) \<times> world" where
  "health env w =
     (let (r1, w1) = registry_request env ''GET'' ''/health'' None JNull False w
      in case caught r1 of
           Inl e \<Rightarrow> (Inl e, w1)
         | Inr (registry_ok, registry_detail) \<Rightarrow>
     (let (r2, w2) = request_upstream env ''artifact-cache-service'' (ARTIFACT_CACHE_URL env)
                       ''GET'' ''/health'' None JNull [] w1
      in case caught r2 of
           Inl e \<Rightarrow> (Inl e, w2)
         | Inr (artifact_ok, artifact_detail) \<Rightarrow>
     (let (r3, w3) = request_upstream env ''onyx-api'' (ONYX_API_URL env)
                       ''GET'' ''/health'' None JNull [] w2
      in case caught r3 of
           Inl e \<Rightarrow> (Inl e, w3)
         | Inr (onyx_ok, onyx_detail) \<Rightarrow>
     (case path_exists env w3 (EVAL_SERVICE_DIR env) of
        Inl e \<Rightarrow> (Inl (Unhandled e), w3 @ [Probed (EVAL_SERVICE_DIR env)])
      | Inr present \<Rightarrow>
     (Inr (JObj
        [(''status'', JStr ''ok''),
         (''registry'', JObj
            [(''url'', JStr (REGISTRY_URL env)),
             (''reachable'', JBool registry_ok),
             (''auth_configured'', JBool (REGISTRY_API_KEY env \<noteq> None)),
             (''detail'', registry_detail)]),
         (''artifact_cache'', JObj
            [(''url'', JStr (ARTIFACT_CACHE_URL env)),
             (''reachable'', JBool artifact_ok),
             (''auth_configured'', JBool (ARTIFACT_CACHE_API_KEY env \<noteq> None)),
             (''detail'', artifact_detail)]),
         (''onyx_api'', JObj
            [(''url'', JStr (ONYX_API_URL env)),
             (''reachable'', JBool onyx_ok),
             (''auth_configured'', JBool (ONYX_API_KEY env \<noteq> None)),
             (''detail'', onyx_detail)]),
         (''eval'', JObj
            [(''eval_service_dir'', JStr (path_str (EVAL_SERVICE_DIR env))),
             (''eval_service_present'', JBool present),
             (''eval_runs_dir'', JStr (path_str (EVAL_RUNS_DIR env)))])]),
      w3 @ [Probed (EVAL_SERVICE_DIR env)])))))"

section \<open>Registry pass-through (lines 214 to 276)\<close>

text \<open>
  The handlers take the arguments FastAPI hands them: path and query parameters, already
  converted, and a JSON body as a decoded value.
\<close>

definition stats :: "env \<Rightarrow> world \<Rightarrow> (failure + json) \<times> world" where
  "stats env w = registry_request env ''GET'' ''/stats'' None JNull True w"

text \<open>\<^verbatim>\<open>if v: params[k] = v\<close> for an optional query parameter.\<close>

definition opt_param :: "string \<Rightarrow> string option \<Rightarrow> (string \<times> json) list \<Rightarrow> (string \<times> json) list" where
  "opt_param k v params =
     (case v of
        None \<Rightarrow> params
      | Some s \<Rightarrow> if s \<noteq> [] then dict_set params k (JStr s) else params)"

definition list_models ::
  "env \<Rightarrow> string option \<Rightarrow> string option \<Rightarrow> string option \<Rightarrow> string option \<Rightarrow> int \<Rightarrow> int \<Rightarrow>
   string \<Rightarrow> string \<Rightarrow> world \<Rightarrow> (failure + json) \<times> world" where
  "list_models env status name q tag limit offset sort_by order w =
     (let params = [(''limit'', JInt limit), (''offset'', JInt offset), (''sort'', JStr sort_by),
                    (''order'', JStr order)];
          params = opt_param ''status'' status params;
          params = opt_param ''name'' name params;
          params = opt_param ''q'' q params;
          params = opt_param ''tag'' tag params
      in registry_request env ''GET'' ''/models'' (Some params) JNull True w)"

definition get_model :: "env \<Rightarrow> int \<Rightarrow> world \<Rightarrow> (failure + json) \<times> world" where
  "get_model env model_id w =
     registry_request env ''GET'' (''/models/'' @ str_int model_id) None JNull True w"

definition get_model_metrics ::
  "env \<Rightarrow> int \<Rightarrow> string option \<Rightarrow> world \<Rightarrow> (failure + json) \<times> world" where
  "get_model_metrics env model_id suite w =
     registry_request env ''GET'' (''/models/'' @ str_int model_id @ ''/metrics'')
       (Some (opt_param ''suite'' suite [])) JNull True w"

definition get_model_events ::
  "env \<Rightarrow> int \<Rightarrow> int \<Rightarrow> int \<Rightarrow> world \<Rightarrow> (failure + json) \<times> world" where
  "get_model_events env model_id limit offset w =
     registry_request env ''GET'' (''/models/'' @ str_int model_id @ ''/events'')
       (Some [(''limit'', JInt limit), (''offset'', JInt offset)]) JNull True w"

definition promote_model :: "env \<Rightarrow> int \<Rightarrow> string \<Rightarrow> world \<Rightarrow> (failure + json) \<times> world" where
  "promote_model env model_id to_status w =
     registry_request env ''POST'' (''/models/'' @ str_int model_id @ ''/promote'')
       (Some [(''to_status'', JStr to_status)]) JNull True w"

section \<open>Artifact cache (lines 284 to 359)\<close>

definition artifact_cache_headers :: "env \<Rightarrow> (string \<times> string) list" where
  "artifact_cache_headers env =
     (case ARTIFACT_CACHE_API_KEY env of None \<Rightarrow> [] | Some k \<Rightarrow> [(''X-API-Key'', k)])"

definition artifact_health :: "env \<Rightarrow> world \<Rightarrow> (failure + json) \<times> world" where
  "artifact_health env w =
     request_upstream env ''artifact-cache-service'' (ARTIFACT_CACHE_URL env) ''GET'' ''/health''
       None JNull (artifact_cache_headers env) w"

definition artifact_resolve :: "env \<Rightarrow> json \<Rightarrow> world \<Rightarrow> (failure + json) \<times> world" where
  "artifact_resolve env body w =
     request_upstream env ''artifact-cache-service'' (ARTIFACT_CACHE_URL env) ''POST'' ''/resolve''
       None body (artifact_cache_headers env) w"

text \<open>\<^verbatim>\<open>isinstance(v, str) and v.strip()\<close>, and \<^verbatim>\<open>isinstance(v, int) and v >= 0\<close>.\<close>

fun nonblank_str :: "json \<Rightarrow> bool" where
  "nonblank_str (JStr s) = (strip s \<noteq> [])"
| "nonblank_str v = False"

definition nonneg_int :: "json \<Rightarrow> bool" where
  "nonneg_int v = (isinstance_int v \<and> 0 \<le> py_int v)"

text \<open>The text of a \<^verbatim>\<open>str\<close> value.\<close>

fun str_of :: "json \<Rightarrow> string" where
  "str_of (JStr s) = s"
| "str_of v = []"

definition resolve_model_checkpoint :: "env \<Rightarrow> int \<Rightarrow> world \<Rightarrow> (failure + json) \<times> world" where
  "resolve_model_checkpoint env model_id w =
     (let (r, w1) = registry_request env ''GET'' (''/models/'' @ str_int model_id) None JNull True w
      in case r of
           Inl e \<Rightarrow> (Inl e, w1)
         | Inr model \<Rightarrow>
     (case model of
        JObj m \<Rightarrow>
          if \<not> nonblank_str (dict_get m ''artifact_uri'') then
            (Inl (HTTPException 400 (JStr ''Model is missing artifact_uri'')), w1)
          else
            let artifact_uri = strip (str_of (dict_get m ''artifact_uri''));
                sha256 = dict_get m ''checkpoint_sha256'';
                size_bytes = dict_get m ''checkpoint_size_bytes''
            in
              if startswith artifact_uri ''s3://'' then
                if \<not> nonblank_str sha256 then
                  (Inl (HTTPException 400 (JStr ''Remote artifact requires checkpoint_sha256'')), w1)
                else if \<not> nonneg_int size_bytes then
                  (Inl (HTTPException 400 (JStr ''Remote artifact requires checkpoint_size_bytes'')),
                   w1)
                else
                  request_upstream env ''artifact-cache-service'' (ARTIFACT_CACHE_URL env)
                    ''POST'' ''/resolve'' None
                    (JObj [(''artifact_uri'', JStr artifact_uri), (''sha256'', sha256),
                           (''size_bytes'', JInt (py_int size_bytes))])
                    (artifact_cache_headers env) w1
              else if startswith artifact_uri ''file://'' \<or> \<not> contains artifact_uri ''://'' then
                let p0 = [(''artifact_uri'', JStr artifact_uri)];
                    p1 = (if nonblank_str sha256
                          then dict_set p0 ''sha256'' (JStr (strip (str_of sha256))) else p0);
                    p2 = (if nonneg_int size_bytes
                          then dict_set p1 ''size_bytes'' (JInt (py_int size_bytes)) else p1)
                in request_upstream env ''artifact-cache-service'' (ARTIFACT_CACHE_URL env)
                     ''POST'' ''/resolve'' None (JObj p2) (artifact_cache_headers env) w1
              else
                (Inl (HTTPException 400
                        (JStr (''Unsupported artifact_uri scheme for resolution: '' @ artifact_uri))),
                 w1)
      | _ \<Rightarrow> (Inl (HTTPException 502 (JStr ''model-registry returned invalid model payload'')), w1)))"

section \<open>Inference (lines 367 to 424)\<close>

definition onyx_headers :: "env \<Rightarrow> (string \<times> string) list" where
  "onyx_headers env = (case ONYX_API_KEY env of None \<Rightarrow> [] | Some k \<Rightarrow> [(''X-API-Key'', k)])"

definition onyx_health :: "env \<Rightarrow> world \<Rightarrow> (failure + json) \<times> world" where
  "onyx_health env w =
     request_upstream env ''onyx-api'' (ONYX_API_URL env) ''GET'' ''/health'' None JNull
       (onyx_headers env) w"

definition onyx_models_loaded :: "env \<Rightarrow> world \<Rightarrow> (failure + json) \<times> world" where
  "onyx_models_loaded env w =
     request_upstream env ''onyx-api'' (ONYX_API_URL env) ''GET'' ''/models_loaded'' None JNull
       (onyx_headers env) w"

text \<open>\<^verbatim>\<open>if isinstance(body, dict): body = dict(body); body["stream"] = False\<close>.\<close>

fun force_non_streaming :: "json \<Rightarrow> json" where
  "force_non_streaming (JObj d) = JObj (dict_set d ''stream'' (JBool False))"
| "force_non_streaming v = v"

definition onyx_generate :: "env \<Rightarrow> json \<Rightarrow> world \<Rightarrow> (failure + json) \<times> world" where
  "onyx_generate env body w =
     request_upstream env ''onyx-api'' (ONYX_API_URL env) ''POST'' ''/generate'' None
       (force_non_streaming body) (onyx_headers env) w"

definition onyx_chat :: "env \<Rightarrow> json \<Rightarrow> world \<Rightarrow> (failure + json) \<times> world" where
  "onyx_chat env body w =
     request_upstream env ''onyx-api'' (ONYX_API_URL env) ''POST'' ''/chat'' None
       (force_non_streaming body) (onyx_headers env) w"

section \<open>The routes that forward to an upstream\<close>

text \<open>
  One constructor for each \<^verbatim>\<open>@app.get\<close> or \<^verbatim>\<open>@app.post\<close> route whose handler calls the
  upstream client, with the handler's arguments; \<open>serve\<close> runs the handler of a route.
\<close>

datatype endpoint =
    Health
  | Stats
  | List_models "string option" "string option" "string option" "string option" int int string
      string
  | Get_model int
  | Get_model_metrics int "string option"
  | Get_model_events int int int
  | Promote_model int string
  | Artifact_health
  | Artifact_resolve json
  | Resolve_model_checkpoint int
  | Onyx_health
  | Onyx_models_loaded
  | Onyx_generate json
  | Onyx_chat json

fun serve :: "env \<Rightarrow> endpoint \<Rightarrow> world \<Rightarrow> (failure + json) \<times> world" where
  "serve env Health w = health env w"
| "serve env Stats w = stats env w"
| "serve env (List_models status name q tag limit offset sort_by order) w =
     list_models env status name q tag limit offset sort_by order w"
| "serve env (Get_model model_id) w = get_model env model_id w"
| "serve env (Get_model_metrics model_id suite) w = get_model_metrics env model_id suite w"
| "serve env (Get_model_events model_id limit offset) w =
     get_model_events env model_id limit offset w"
| "serve env (Promote_model model_id to_status) w = promote_model env model_id to_status w"
| "serve env Artifact_health w = artifact_health env w"
| "serve env (Artifact_resolve body) w = artifact_resolve env body w"
| "serve env (Resolve_model_checkpoint model_id) w = resolve_model_checkpoint env model_id w"
| "serve env Onyx_health w = onyx_health env w"
| "serve env Onyx_models_loaded w = onyx_models_loaded env w"
| "serve env (Onyx_generate body) w = onyx_generate env body w"
| "serve env (Onyx_chat body) w = onyx_chat env body w"

section \<open>Evaluation runs (lines 432 to 566)\<close>

definition eval_service_present :: "env \<Rightarrow> world \<Rightarrow> (string + bool) \<times> world" where
  "eval_service_present env w =
     (let p = Child (Child (EVAL_SERVICE_DIR env) ''caiatech_eval_service'') ''runner.py''
      in (path_exists env w p, w @ [Probed p]))"

definition default_inference_url :: "env \<Rightarrow> string" where
  "default_inference_url env =
     (if ONYX_API_URL env \<noteq> [] then ONYX_API_URL env else ''http://127.0.0.1:8000'')"

text \<open>
  \<^verbatim>\<open>JSONResponse(content=httpx.Response(200, text=path.read_text()).json())\<close>: no exception is
  caught there, the decoder's included.
\<close>

definition get_eval_summary :: "env \<Rightarrow> string \<Rightarrow> world \<Rightarrow> (failure + json) \<times> world" where
  "get_eval_summary env eval_run_id w =
     (case safe_run_id eval_run_id of
        Inl e \<Rightarrow> (Inl e, w)
      | Inr rid \<Rightarrow>
          let p = Child (EVAL_RUNS_DIR env) (rid @ ''_summary.json'');
              w1 = w @ [Probed p]
          in (case path_exists env w p of
               Inl e \<Rightarrow> (Inl (Unhandled e), w1)
             | Inr found \<Rightarrow>
                 if \<not> found then
                   (Inl (HTTPException 404 (JStr ''Eval summary not found'')), w1)
                 else
                   (case read_text env w1 p of
                      Inl e \<Rightarrow> (Inl (Unhandled e), w1 @ [Read_text p])
                    | Inr content \<Rightarrow>
                        (case json_loads env content of
                           Inl e \<Rightarrow> (Inl (Unhandled e), w1 @ [Read_text p])
                         | Inr v \<Rightarrow> (Inr v, w1 @ [Read_text p])))))"

text \<open>The success value is \<^verbatim>\<open>FileResponse(path, media_type="application/jsonl")\<close>.\<close>

definition get_eval_jsonl :: "env \<Rightarrow> string \<Rightarrow> world \<Rightarrow> (failure + path \<times> string) \<times> world" where
  "get_eval_jsonl env eval_run_id w =
     (case safe_run_id eval_run_id of
        Inl e \<Rightarrow> (Inl e, w)
      | Inr rid \<Rightarrow>
          let p = Child (EVAL_RUNS_DIR env) (rid @ ''.jsonl'');
              w1 = w @ [Probed p]
          in (case path_exists env w p of
               Inl e \<Rightarrow> (Inl (Unhandled e), w1)
             | Inr found \<Rightarrow>
                 if \<not> found then
                   (Inl (HTTPException 404 (JStr ''Eval jsonl not found'')), w1)
                 else (Inr (p, ''application/jsonl''), w1)))"

text \<open>\<^verbatim>\<open>str(v)\<close> of a decoded value.\<close>

fun py_str :: "env \<Rightarrow> json \<Rightarrow> string" where
  "py_str env (JStr s) = s"
| "py_str env (JInt i) = str_int i"
| "py_str env (JBool b) = (if b then ''True'' else ''False'')"
| "py_str env JNull = ''None''"
| "py_str env v = py_repr env v"

text \<open>The loop over the optional tuning knobs (lines 520 to 530).\<close>

definition tuning_flags :: "env \<Rightarrow> (string \<times> json) list \<Rightarrow> string list" where
  "tuning_flags env body =
     concat (map (\<lambda>(key, flag).
                    let v = dict_get body key
                    in if v = JNull then [] else [flag, py_str env v])
       [(''timeout_seconds'', ''--timeout-seconds''),
        (''retries'', ''--retries''),
        (''backoff_seconds'', ''--backoff-seconds''),
        (''max_tokens'', ''--max-tokens''),
        (''temperature'', ''--temperature'')])"

text \<open>
  \<^verbatim>\<open>run_eval\<close> up to the command line (lines 478 to 530): the validation of the body, the
  check for the evaluation program, the run directory, and the command. An exception of the
  file system leaves the handler.
\<close>

definition run_eval_command :: "env \<Rightarrow> json \<Rightarrow> world \<Rightarrow> (failure + string list) \<times> world" where
  "run_eval_command env body w =
     (case body of
        JObj d \<Rightarrow>
          let model_id = dict_get d ''model_id'';
              suite = dict_get d ''suite'';
              inference_url = py_or (dict_get d ''inference_url'') (JStr (default_inference_url env))
          in
            if \<not> isinstance_int model_id then
              (Inl (HTTPException 400 (JStr ''model_id must be an integer'')), w)
            else if \<not> nonblank_str suite then
              (Inl (HTTPException 400 (JStr ''suite is required'')), w)
            else if strip (str_of suite) \<notin> set [''smoke-v1'', ''core-v1'', ''math-corpus-v1''] then
              (Inl (HTTPException 400
                      (JStr ''suite must be one of: smoke-v1, core-v1, math-corpus-v1'')), w)
            else if \<not> nonblank_str inference_url then
              (Inl (HTTPException 400 (JStr ''inference_url is required'')), w)
            else
              let (present, w1) = eval_service_present env w;
                  w2 = w1 @ [Made_dir (EVAL_RUNS_DIR env)]
              in (case present of
                    Inl e \<Rightarrow> (Inl (Unhandled e), w1)
                  | Inr found \<Rightarrow>
                      if \<not> found then
                        (Inl (HTTPException 503
                                (JStr (''Eval service not found at ''
                                       @ path_str (EVAL_SERVICE_DIR env)
                                       @ '' (set CAIA_EVAL_SERVICE_DIR)''))), w1)
                      else
                        (case mkdir env w1 (EVAL_RUNS_DIR env) of
                           Some e \<Rightarrow> (Inl (Unhandled e), w2)
                         | None \<Rightarrow>
                             (case require_registry_key env of
                                Inl e \<Rightarrow> (Inl e, w2)
                              | Inr k \<Rightarrow>
                                  (Inr ([sys_executable env, ''-m'',
                                         ''caiatech_eval_service.runner'',
                                         ''--registry-url'', REGISTRY_URL env,
                                         ''--api-key'', k,
                                         ''--suite'', strip (str_of suite),
                                         ''--model-id'', py_str env model_id,
                                         ''--inference-url'', strip (str_of inference_url),
                                         ''--eval-runs-dir'', path_str (EVAL_RUNS_DIR env)]
                                        @ tuning_flags env d), w2))))
      | _ \<Rightarrow> (Inl (HTTPException 400 (JStr ''Invalid JSON body'')), w))"

text \<open>\<^verbatim>\<open>isinstance(result, dict) and isinstance(result.get("eval_run_id"), str)\<close>.\<close>

fun has_eval_run_id :: "json \<Rightarrow> bool" where
  "has_eval_run_id (JObj r) = (case dict_get r ''eval_run_id'' of JStr rid \<Rightarrow> True | _ \<Rightarrow> False)"
| "has_eval_run_id v = False"

fun items_of :: "json \<Rightarrow> (string \<times> json) list" where
  "items_of (JObj r) = r"
| "items_of v = []"

text \<open>
  \<^verbatim>\<open>run_eval\<close>: the command, then the child process and its outcome (lines 532 to 566). The
  call of \<^verbatim>\<open>subprocess.run\<close> stands in no \<^verbatim>\<open>try\<close>: an exception it raises leaves the handler.
\<close>

definition run_eval :: "env \<Rightarrow> json \<Rightarrow> world \<Rightarrow> (failure + json) \<times> world" where
  "run_eval env body w =
     (case run_eval_command env body w of
        (Inl e, w1) \<Rightarrow> (Inl e, w1)
      | (Inr cmd, w1) \<Rightarrow>
          let (started_at, w2) = now_utc_iso env w1;
              cwd = path_str (EVAL_SERVICE_DIR env);
              w3 = w2 @ [Spawned cmd cwd]
          in
          (case subprocess_run env w2 cmd cwd of
             Not_started e \<Rightarrow> (Inl (Unhandled e), w3)
           | Undecodable code e \<Rightarrow> (Inl (Unhandled e), w3)
           | Completed proc \<Rightarrow>
            if returncode proc \<noteq> 0 then
              (Inl (HTTPException 502
                      (JObj [(''upstream'', JStr ''caiatech-eval-service''),
                             (''returncode'', JInt (returncode proc)),
                             (''stdout'', JStr (strip (stdout proc))),
                             (''stderr'', JStr (strip (stderr proc)))])), w3)
            else
              (case json_loads env (strip (stdout proc)) of
                 Inl e \<Rightarrow>
                   (Inl (HTTPException 502
                           (JObj [(''upstream'', JStr ''caiatech-eval-service''),
                                  (''error'', JStr (''Invalid JSON on stdout: '' @ e)),
                                  (''stdout'', JStr (strip (stdout proc)))])), w3)
               | Inr result \<Rightarrow>
                   if \<not> has_eval_run_id result then
                     (Inl (HTTPException 502
                             (JObj [(''upstream'', JStr ''caiatech-eval-service''),
                                    (''error'', JStr ''Missing eval_run_id'')])), w3)
                   else
                     let r1 = dict_set (items_of result) ''started_at'' (JStr started_at);
                         (finished_at, w4) = now_utc_iso env w3
                     in (Inr (JObj (dict_set r1 ''finished_at'' (JStr finished_at))), w4))))"

section \<open>A test bench\<close>

text \<open>
  Concrete environments, on which the handlers can be run. \<open>decode_table docs\<close> decodes the
  listed documents to the listed values and rejects every other text with the error of the
  empty document. \<open>routes tbl\<close> answers a request by its URL, and refuses the connection
  to a URL it does not list. The clock advances one second per event, from 2024-05-01 12:00:00
  UTC, and \<open>stamps\<close> renders the instants the runs below read.
\<close>

definition decode_table :: "(string \<times> json) list \<Rightarrow> string \<Rightarrow> string + json" where
  "decode_table docs s =
     (case map_of docs s of
        Some v \<Rightarrow> Inr v
      | None \<Rightarrow> Inl ''Expecting value: line 1 column 1 (char 0)'')"

definition routes :: "(string \<times> net_outcome) list \<Rightarrow> world \<Rightarrow> http_request \<Rightarrow> net_outcome" where
  "routes tbl w req =
     (case map_of tbl (req_url req) of
        Some out \<Rightarrow> out
      | None \<Rightarrow> RequestError ''All connection attempts failed'')"

definition stamps :: "int \<Rightarrow> string" where
  "stamps t =
     (case map_of [(1714564800000000, ''2024-05-01T12:00:00+00:00''),
                   (1714564802000000, ''2024-05-01T12:00:02+00:00''),
                   (1714564804000000, ''2024-05-01T12:00:04+00:00'')] t of
        Some s \<Rightarrow> s
      | None \<Rightarrow> ''1970-01-01T00:00:00+00:00'')"

definition lab ::
  "(string \<times> string) list \<Rightarrow> (world \<Rightarrow> http_request \<Rightarrow> net_outcome) \<Rightarrow> (string \<times> json) list \<Rightarrow>
   completed_process \<Rightarrow> env" where
  "lab vars network docs proc =
     \<lparr>getenv = map_of vars,
      EVAL_SERVICE_DIR = Path ''/opt/caiatech-eval-service'',
      EVAL_RUNS_DIR = Path ''/srv/eval_runs'',
      sys_executable = ''/usr/bin/python3'',
      net = network,
      json_loads = decode_table docs,
      py_repr = (\<lambda>v. ''...''),
      clock = (\<lambda>w. 1714564800000000 + 1000000 * int (length w)),
      isoformat = stamps,
      path_exists = (\<lambda>w p. Inr True),
      mkdir = (\<lambda>w p. None),
      read_text = (\<lambda>w p. Inr []),
      subprocess_run = (\<lambda>w cmd cwd. Completed proc)\<rparr>"

definition idle :: completed_process where
  "idle = \<lparr>returncode = 0, stdout = [], stderr = []\<rparr>"

text \<open>Upstreams that answer with an error status, with a JSON body and with a plain one.\<close>

definition model_not_found :: response where
  \<open>model_not_found = \<lparr>status_code = 404, resp_text = ''{"detail":"Model not found"}''\<rparr>\<close>

definition unavailable_page :: response where
  "unavailable_page = \<lparr>status_code = 503, resp_text = ''Service Unavailable''\<rparr>"

definition failing_upstreams :: env where
  \<open>failing_upstreams =
     lab [(''CAIA_REGISTRY_API_KEY'', ''registry-key'')] (routes [(''http://127.0.0.1:8001/models/7'', Response model_not_found),
                     (''http://127.0.0.1:8000/generate'', Response unavailable_page)])
       [(''{"detail":"Model not found"}'', JObj [(''detail'', JStr ''Model not found'')])] idle\<close>

text \<open>An inference upstream that answers 200 with an empty body, 204, or 200 with a document.\<close>

definition empty_ok :: response where
  "empty_ok = \<lparr>status_code = 200, resp_text = []\<rparr>"

definition empty_ok_upstream :: env where
  "empty_ok_upstream =
     lab [] (routes [(''http://127.0.0.1:8000/health'', Response empty_ok)]) [] idle"

definition no_content :: response where
  "no_content = \<lparr>status_code = 204, resp_text = []\<rparr>"

definition status_ok :: response where
  \<open>status_ok = \<lparr>status_code = 200, resp_text = ''{"status":"ok"}''\<rparr>\<close>

definition healthy_upstreams :: env where
  \<open>healthy_upstreams =
     lab [] (routes [(''http://127.0.0.1:8002/health'', Response no_content),
                     (''http://127.0.0.1:8000/health'', Response status_ok)])
       [(''{"status":"ok"}'', JObj [(''status'', JStr ''ok'')])] idle\<close>

text \<open>A registry that is down, an artifact cache that answers 503, an inference upstream that is up.\<close>

definition mixed_upstreams :: env where
  "mixed_upstreams =
     lab [(''CAIA_ONYX_API_KEY'', ''onyx-key'')]
       (routes [(''http://127.0.0.1:8002/health'', Response unavailable_page),
                (''http://127.0.0.1:8000/health'', Response status_ok)])
       [(''{\"status\":\"ok\"}'', JObj [(''status'', JStr ''ok'')])] idle"

text \<open>A registry with three models, and an artifact cache that resolves.\<close>

definition model_7 :: "(string \<times> json) list" where
  "model_7 = [(''id'', JInt 7), (''artifact_uri'', JStr ''s3://ckpt/m7.pt'')]"

definition model_8 :: "(string \<times> json) list" where
  "model_8 = [(''id'', JInt 8), (''artifact_uri'', JStr ''s3://ckpt/m8.pt''),
              (''checkpoint_sha256'', JStr ''ab12''), (''checkpoint_size_bytes'', JInt 1024)]"

definition model_9 :: "(string \<times> json) list" where
  "model_9 = [(''id'', JInt 9), (''artifact_uri'', JStr ''ftp://host/m9.pt''),
              (''checkpoint_sha256'', JStr ''ab12''), (''checkpoint_size_bytes'', JInt 1024)]"

definition registry_with_models :: env where
  \<open>registry_with_models =
     lab [(''CAIA_REGISTRY_API_KEY'', ''registry-key'')]
       (routes
          [(''http://127.0.0.1:8001/models/7'',
            Response \<lparr>status_code = 200,
                       resp_text = ''{"id":7,"artifact_uri":"s3://ckpt/m7.pt"}''\<rparr>),
           (''http://127.0.0.1:8001/models/8'',
            Response \<lparr>status_code = 200,
                       resp_text = ''{"id":8,"artifact_uri":"s3://ckpt/m8.pt","checkpoint_sha256":"ab12","checkpoint_size_bytes":1024}''\<rparr>),
           (''http://127.0.0.1:8001/models/9'',
            Response \<lparr>status_code = 200,
                       resp_text = ''{"id":9,"artifact_uri":"ftp://host/m9.pt","checkpoint_sha256":"ab12","checkpoint_size_bytes":1024}''\<rparr>),
           (''http://127.0.0.1:8002/resolve'',
            Response \<lparr>status_code = 200, resp_text = ''{"local_path":"/cache/ab12"}''\<rparr>)])
       [(''{"id":7,"artifact_uri":"s3://ckpt/m7.pt"}'', JObj model_7),
        (''{"id":8,"artifact_uri":"s3://ckpt/m8.pt","checkpoint_sha256":"ab12","checkpoint_size_bytes":1024}'',
         JObj model_8),
        (''{"id":9,"artifact_uri":"ftp://host/m9.pt","checkpoint_sha256":"ab12","checkpoint_size_bytes":1024}'',
         JObj model_9),
        (''{"local_path":"/cache/ab12"}'', JObj [(''local_path'', JStr ''/cache/ab12'')])]
       idle\<close>

text \<open>An artifact cache that rejects the resolution of model 8.\<close>

definition checksum_mismatch :: response where
  \<open>checksum_mismatch = \<lparr>status_code = 422, resp_text = ''{"detail":"checksum mismatch"}''\<rparr>\<close>

definition rejecting_cache :: env where
  \<open>rejecting_cache =
     lab [(''CAIA_REGISTRY_API_KEY'', ''registry-key'')]
       (routes
          [(''http://127.0.0.1:8001/models/8'',
            Response \<lparr>status_code = 200,
                       resp_text = ''{"id":8,"artifact_uri":"s3://ckpt/m8.pt","checkpoint_sha256":"ab12","checkpoint_size_bytes":1024}''\<rparr>),
           (''http://127.0.0.1:8002/resolve'', Response checksum_mismatch)])
       [(''{"id":8,"artifact_uri":"s3://ckpt/m8.pt","checkpoint_sha256":"ab12","checkpoint_size_bytes":1024}'',
         JObj model_8),
        (''{"detail":"checksum mismatch"}'', JObj [(''detail'', JStr ''checksum mismatch'')])]
       idle\<close>



text \<open>
  Evaluation requests: a runner that exits with code 1, one that prints a result with a
  \<^verbatim>\<open>started_at\<close> of its own, one that prints a score, and two settings of the inference
  base URL.
\<close>

definition eval_body :: "(string \<times> json) list" where
  "eval_body = [(''model_id'', JInt 7), (''suite'', JStr ''smoke-v1'')]"

definition crashed :: completed_process where
  "crashed = \<lparr>returncode = 1, stdout = [], stderr = ''model not found'' @ [CHR 0x0A]\<rparr>"

definition crashing_runner :: env where
  "crashing_runner = lab [(''CAIA_REGISTRY_API_KEY'', ''registry-key'')] (routes []) [] crashed"

definition emitted :: "(string \<times> json) list" where
  "emitted = [(''eval_run_id'', JStr ''run-42''), (''started_at'', JStr ''2024-04-30T08:00:00Z'')]"

definition finished_run :: completed_process where
  \<open>finished_run =
     \<lparr>returncode = 0,
      stdout = ''{"eval_run_id":"run-42","started_at":"2024-04-30T08:00:00Z"}'' @ [CHR 0x0A],
      stderr = []\<rparr>\<close>

definition stamping_runner :: env where
  \<open>stamping_runner =
     lab [(''CAIA_REGISTRY_API_KEY'', ''registry-key'')] (routes [])
       [(''{"eval_run_id":"run-42","started_at":"2024-04-30T08:00:00Z"}'', JObj emitted)]
       finished_run\<close>

definition scored_run :: completed_process where
  \<open>scored_run =
     \<lparr>returncode = 0, stdout = ''{"eval_run_id":"run-42","passed":12}'' @ [CHR 0x0A],
      stderr = []\<rparr>\<close>

definition scoring_runner :: env where
  \<open>scoring_runner =
     lab [(''CAIA_REGISTRY_API_KEY'', ''registry-key'')] (routes [])
       [(''{"eval_run_id":"run-42","passed":12}'',
         JObj [(''eval_run_id'', JStr ''run-42''), (''passed'', JInt 12)])]
       scored_run\<close>

definition no_inference_base :: env where
  \<open>no_inference_base =
     lab [(''CAIA_REGISTRY_API_KEY'', ''registry-key''), (''CAIA_ONYX_API_URL'', ''/'')] (routes [])
       [(''{"eval_run_id":"run-42","passed":12}'',
         JObj [(''eval_run_id'', JStr ''run-42''), (''passed'', JInt 12)])]
       scored_run\<close>

definition custom_inference_base :: env where
  \<open>custom_inference_base =
     lab [(''CAIA_REGISTRY_API_KEY'', ''registry-key''),
          (''CAIA_ONYX_API_URL'', ''http://onyx.internal:9000/'')] (routes [])
       [(''{"eval_run_id":"run-42","passed":12}'',
         JObj [(''eval_run_id'', JStr ''run-42''), (''passed'', JInt 12)])]
       scored_run\<close>

text \<open>
  A runner that exits with code 1 after writing bytes that are not text in the locale's
  encoding, which makes \<^verbatim>\<open>subprocess.run\<close> raise; and a wall clock that is set back by four
  seconds while the runner works.
\<close>

definition cannot_decode :: string where
  "cannot_decode =
     [CHR 0x27] @ ''utf-8'' @ [CHR 0x27] @ '' codec can'' @ [CHR 0x27]
     @ ''t decode byte 0xff in position 0: invalid start byte''"

definition garbles :: "world \<Rightarrow> string list \<Rightarrow> string \<Rightarrow> run_outcome" where
  "garbles w cmd cwd = Undecodable 1 cannot_decode"

definition garbling_runner :: env where
  "garbling_runner =
     (lab [(''CAIA_REGISTRY_API_KEY'', ''registry-key'')] (routes []) [] idle)
       \<lparr>subprocess_run := garbles\<rparr>"

definition set_back_clock :: "world \<Rightarrow> int" where
  "set_back_clock w = (if length w < 3 then 1714564804000000 else 1714564800000000)"

definition set_back_runner :: env where
  \<open>set_back_runner =
     (lab [(''CAIA_REGISTRY_API_KEY'', ''registry-key'')] (routes [])
        [(''{"eval_run_id":"run-42","passed":12}'',
          JObj [(''eval_run_id'', JStr ''run-42''), (''passed'', JInt 12)])]
        scored_run)
       \<lparr>clock := set_back_clock\<rparr>\<close>

section \<open>Properties\<close>

subsection \<open>Histories\<close>

lemma sent_to_append: "sent_to u (xs @ ys) = sent_to u xs @ sent_to u ys"
  by (induction u xs rule: sent_to.induct) auto

subsection \<open>The upstream client\<close>

text \<open>A call hands at most one request to the client, and none when the base URL is empty.\<close>

lemma request_upstream_world:
  "snd (request_upstream env upstream base_url meth path params json_body headers w) =
     (if base_url = [] then w
      else w @ [Sent upstream \<lparr>req_method = meth, req_url = base_url @ path,
                  req_params = params, req_json = json_body, req_headers = headers\<rparr>])"
  by (simp add: request_upstream_def Let_def split: net_outcome.split sum.split)



lemma registry_request_world:
  "snd (registry_request env meth path params json_body require_key w) =
     (if (require_key \<and> REGISTRY_API_KEY env = None) \<or> REGISTRY_URL env = [] then w
      else w @ [Sent ''model-registry''
                  \<lparr>req_method = meth, req_url = REGISTRY_URL env @ path, req_params = params,
                   req_json = json_body,
                   req_headers = (if require_key
                                  then [(''X-API-Key'', the (REGISTRY_API_KEY env))] else [])\<rparr>])"
  by (auto simp add: registry_request_def require_registry_key_def request_upstream_world
      split: option.split)

text \<open>
  The failure that lines 99 to 104 raise for an answer with an error status.
\<close>

lemma request_upstream_error_status:
  assumes "base_url \<noteq> []"
    and "net env w \<lparr>req_method = meth, req_url = base_url @ path, req_params = params,
                     req_json = json_body, req_headers = headers\<rparr> = Response resp"
    and "400 \<le> status_code resp"
  shows "fst (request_upstream env upstream base_url meth path params json_body headers w) =
         Inl (HTTPException (status_code resp)
                (JObj [(''upstream'', JStr upstream),
                       (''error'', case json_loads env (resp_text resp) of
                                     Inr v \<Rightarrow> v
                                   | Inl e \<Rightarrow> JObj [(''detail'', JStr (resp_text resp))])]))"
  using assms by (simp add: request_upstream_def Let_def)

text \<open>
  A call of the client that leaves a request in the history, answered with an error status,
  fails with that status.
\<close>

lemma request_upstream_forward:
  assumes hist: "snd (request_upstream env u base_url meth path params json_body headers w) = w @ evs"
    and i: "i < length evs"
    and ev: "evs ! i = Sent upstream req"
    and ans: "net env (w @ take i evs) req = Response resp"
    and st: "400 \<le> status_code resp"
  shows "fst (request_upstream env u base_url meth path params json_body headers w) =
         Inl (HTTPException (status_code resp)
                (JObj [(''upstream'', JStr upstream),
                       (''error'', case json_loads env (resp_text resp) of
                                     Inr v \<Rightarrow> v
                                   | Inl e \<Rightarrow> JObj [(''detail'', JStr (resp_text resp))])]))"
proof -
  let ?req = "\<lparr>req_method = meth, req_url = base_url @ path, req_params = params,
                req_json = json_body, req_headers = headers\<rparr>"
  have ne: "base_url \<noteq> []" using hist i by (auto simp: request_upstream_world)
  then have evs: "evs = [Sent u ?req]" using hist by (simp add: request_upstream_world)
  with i ev have "i = 0" "upstream = u" "req = ?req" by auto
  with ans have "net env w ?req = Response resp" by simp
  from request_upstream_error_status [OF ne this st] \<open>upstream = u\<close> show ?thesis by simp
qed

lemma registry_request_forward:
  assumes hist: "snd (registry_request env meth path params json_body require_key w) = w @ evs"
    and i: "i < length evs"
    and ev: "evs ! i = Sent upstream req"
    and ans: "net env (w @ take i evs) req = Response resp"
    and st: "400 \<le> status_code resp"
  shows "fst (registry_request env meth path params json_body require_key w) =
         Inl (HTTPException (status_code resp)
                (JObj [(''upstream'', JStr upstream),
                       (''error'', case json_loads env (resp_text resp) of
                                     Inr v \<Rightarrow> v
                                   | Inl e \<Rightarrow> JObj [(''detail'', JStr (resp_text resp))])]))"
proof (cases "require_key \<and> REGISTRY_API_KEY env = None")
  case True
  then have "evs = []" using hist by (simp add: registry_request_world)
  with i show ?thesis by simp
next
  case False
  then show ?thesis
    using request_upstream_forward [OF _ i ev ans st] hist
    by (auto simp add: registry_request_def require_registry_key_def split: option.splits)
qed


text \<open>The checkpoint resolution makes two calls: the fetch of the model, then the resolution.\<close>

lemma registry_request_ok:
  assumes "registry_request env meth path params json_body require_key w = (Inr v, w1)"
  shows "\<exists>req0 r0. w1 = w @ [Sent ''model-registry'' req0] \<and> net env w req0 = Response r0 \<and>
           status_code r0 < 400"
  using assms
  by (auto simp add: registry_request_def require_registry_key_def request_upstream_def Let_def
      split: if_splits option.splits net_outcome.splits sum.splits)

lemma resolve_model_checkpoint_after_fetch:
  assumes "registry_request env ''GET'' (''/models/'' @ str_int model_id) None JNull True w =
             (Inr model, w1)"
  shows "(\<exists>e. resolve_model_checkpoint env model_id w = (Inl e, w1)) \<or>
         (\<exists>body. resolve_model_checkpoint env model_id w =
            request_upstream env ''artifact-cache-service'' (ARTIFACT_CACHE_URL env) ''POST''
              ''/resolve'' None body (artifact_cache_headers env) w1)"
  using assms
  by (cases model) (auto simp add: resolve_model_checkpoint_def Let_def)

lemma resolve_model_checkpoint_forward:
  assumes hist: "snd (resolve_model_checkpoint env model_id w) = w @ evs"
    and i: "i < length evs"
    and ev: "evs ! i = Sent upstream req"
    and ans: "net env (w @ take i evs) req = Response resp"
    and st: "400 \<le> status_code resp"
  shows "fst (resolve_model_checkpoint env model_id w) =
         Inl (HTTPException (status_code resp)
                (JObj [(''upstream'', JStr upstream),
                       (''error'', case json_loads env (resp_text resp) of
                                     Inr v \<Rightarrow> v
                                   | Inl e \<Rightarrow> JObj [(''detail'', JStr (resp_text resp))])]))"
proof -
  obtain r w1 where fetch:
    "registry_request env ''GET'' (''/models/'' @ str_int model_id) None JNull True w = (r, w1)"
    by force
  show ?thesis
  proof (cases r)
    case (Inl e)
    with fetch have same: "resolve_model_checkpoint env model_id w =
        registry_request env ''GET'' (''/models/'' @ str_int model_id) None JNull True w"
      by (simp add: resolve_model_checkpoint_def)
    show ?thesis
      using registry_request_forward [OF _ i ev ans st] hist unfolding same by simp
  next
    case (Inr model)
    with fetch registry_request_ok obtain req0 r0 where
      w1: "w1 = w @ [Sent ''model-registry'' req0]" and a0: "net env w req0 = Response r0"
      and s0: "status_code r0 < 400"
      by blast
    have not_first: "i \<noteq> 0"
    proof
      assume "i = 0"
      moreover have "evs ! 0 = Sent ''model-registry'' req0"
      proof -
        from resolve_model_checkpoint_after_fetch [of env model_id w model w1] fetch Inr
        have "\<exists>rest. snd (resolve_model_checkpoint env model_id w) = w1 @ rest"
          by (auto simp add: request_upstream_world)
        with hist w1 show ?thesis by auto
      qed
      ultimately have "req = req0" using ev by simp
      with \<open>i = 0\<close> ans a0 s0 st show False by simp
    qed
    from resolve_model_checkpoint_after_fetch [of env model_id w model w1] fetch Inr
    consider (stop) e where "resolve_model_checkpoint env model_id w = (Inl e, w1)"
      | (go) body where "resolve_model_checkpoint env model_id w =
            request_upstream env ''artifact-cache-service'' (ARTIFACT_CACHE_URL env) ''POST''
              ''/resolve'' None body (artifact_cache_headers env) w1"
      by blast
    then show ?thesis
    proof cases
      case stop
      with hist w1 have "evs = [Sent ''model-registry'' req0]" by simp
      with i not_first show ?thesis by simp
    next
      case go
      let ?run = "request_upstream env ''artifact-cache-service'' (ARTIFACT_CACHE_URL env)
          ''POST'' ''/resolve'' None body (artifact_cache_headers env) w1"
      have "\<exists>evs2. snd ?run = w1 @ evs2" by (simp add: request_upstream_world)
      then obtain evs2 where evs2: "snd ?run = w1 @ evs2" by blast
      with go hist w1 have evs: "evs = Sent ''model-registry'' req0 # evs2" by simp
      from not_first obtain j where j: "i = Suc j" by (cases i) auto
      have "j < length evs2" "evs2 ! j = Sent upstream req"
        "net env (w1 @ take j evs2) req = Response resp"
        using i ev ans evs j w1 by simp_all
      from request_upstream_forward [OF evs2 this st] go show ?thesis by simp
    qed
  qed
qed

text \<open>
  C1, amended. For every request that a route other than \<^verbatim>\<open>GET /health\<close> hands to the upstream client
  and that the upstream answers with a status of 400 or more, the route fails with an
  \<open>HTTPException\<close> of that very status, whose detail names the upstream and carries the
  decoded JSON body of the answer when the body decodes, and the raw text of the body as
  \<^verbatim>\<open>{"detail": text}\<close> when it does not.
\<close>

theorem forwarded_error_reaches_caller:
  assumes "ep \<noteq> Health"
    and "snd (serve env ep w) = w @ evs"
    and "i < length evs"
    and "evs ! i = Sent upstream req"
    and "net env (w @ take i evs) req = Response resp"
    and "400 \<le> status_code resp"
  shows "fst (serve env ep w) =
         Inl (HTTPException (status_code resp)
                (JObj [(''upstream'', JStr upstream),
                       (''error'', case json_loads env (resp_text resp) of
                                     Inr v \<Rightarrow> v
                                   | Inl e \<Rightarrow> JObj [(''detail'', JStr (resp_text resp))])]))"
proof (cases ep)
  case Health
  with assms(1) show ?thesis by simp
next
  case Stats
  then show ?thesis
    using registry_request_forward [OF _ assms(3-6)] assms(2) by (simp add: stats_def)
next
  case (List_models status name q tag limit offset sort_by order)
  then show ?thesis
    using registry_request_forward [OF _ assms(3-6)] assms(2)
    by (simp add: list_models_def Let_def)
next
  case (Get_model model_id)
  then show ?thesis
    using registry_request_forward [OF _ assms(3-6)] assms(2) by (simp add: get_model_def)
next
  case (Get_model_metrics model_id suite)
  then show ?thesis
    using registry_request_forward [OF _ assms(3-6)] assms(2)
    by (simp add: get_model_metrics_def)
next
  case (Get_model_events model_id limit offset)
  then show ?thesis
    using registry_request_forward [OF _ assms(3-6)] assms(2)
    by (simp add: get_model_events_def)
next
  case (Promote_model model_id to_status)
  then show ?thesis
    using registry_request_forward [OF _ assms(3-6)] assms(2) by (simp add: promote_model_def)
next
  case Artifact_health
  then show ?thesis
    using request_upstream_forward [OF _ assms(3-6)] assms(2) by (simp add: artifact_health_def)
next
  case (Artifact_resolve body)
  then show ?thesis
    using request_upstream_forward [OF _ assms(3-6)] assms(2)
    by (simp add: artifact_resolve_def)
next
  case (Resolve_model_checkpoint model_id)
  then show ?thesis
    using resolve_model_checkpoint_forward [OF _ assms(3-6)] assms(2) by simp
next
  case Onyx_health
  then show ?thesis
    using request_upstream_forward [OF _ assms(3-6)] assms(2) by (simp add: onyx_health_def)
next
  case Onyx_models_loaded
  then show ?thesis
    using request_upstream_forward [OF _ assms(3-6)] assms(2)
    by (simp add: onyx_models_loaded_def)
next
  case (Onyx_generate body)
  then show ?thesis
    using request_upstream_forward [OF _ assms(3-6)] assms(2) by (simp add: onyx_generate_def)
next
  case (Onyx_chat body)
  then show ?thesis
    using request_upstream_forward [OF _ assms(3-6)] assms(2) by (simp add: onyx_chat_def)
qed

text \<open>The definitions a call of the client on the test bench unfolds.\<close>

lemmas client_defs =
  lab_def routes_def decode_table_def registry_request_def require_registry_key_def
  request_upstream_def REGISTRY_URL_def ARTIFACT_CACHE_URL_def ONYX_API_URL_def
  REGISTRY_API_KEY_def ARTIFACT_CACHE_API_KEY_def ONYX_API_KEY_def api_key_def getenv_or_def
  clean_base_url_def strip_def isspace_def rstrip_slash_def str_int_def dict_get_def
  startswith_def nonneg_int_def artifact_cache_headers_def onyx_headers_def dict_set_def

theorem forwarded_error_reaches_caller_witness:
  "fst (serve failing_upstreams (Get_model 7) []) =
     Inl (HTTPException 404
            (JObj [(''upstream'', JStr ''model-registry''),
                   (''error'', JObj [(''detail'', JStr ''Model not found'')])]))
   \<and> fst (serve failing_upstreams (Onyx_generate (JObj [(''prompt'', JStr ''hi'')])) []) =
     Inl (HTTPException 503
            (JObj [(''upstream'', JStr ''onyx-api''),
                   (''error'', JObj [(''detail'', JStr ''Service Unavailable'')])]))
   \<and> fst (serve rejecting_cache (Resolve_model_checkpoint 8) []) =
     Inl (HTTPException 422
            (JObj [(''upstream'', JStr ''artifact-cache-service''),
                   (''error'', JObj [(''detail'', JStr ''checksum mismatch'')])]))"
  using forwarded_error_reaches_caller [where env = failing_upstreams and ep = "Get_model 7"
      and w = "[]" and i = 0 and upstream = "''model-registry''" and resp = model_not_found
      and req = "\<lparr>req_method = ''GET'', req_url = ''http://127.0.0.1:8001/models/7'',
                  req_params = None, req_json = JNull,
                  req_headers = [(''X-API-Key'', ''registry-key'')]\<rparr>"
      and evs = "[Sent ''model-registry''
                    \<lparr>req_method = ''GET'', req_url = ''http://127.0.0.1:8001/models/7'',
                     req_params = None, req_json = JNull,
                     req_headers = [(''X-API-Key'', ''registry-key'')]\<rparr>]"]
    forwarded_error_reaches_caller [where env = failing_upstreams
      and ep = "Onyx_generate (JObj [(''prompt'', JStr ''hi'')])"
      and w = "[]" and i = 0 and upstream = "''onyx-api''" and resp = unavailable_page
      and req = "\<lparr>req_method = ''POST'', req_url = ''http://127.0.0.1:8000/generate'',
                  req_params = None,
                  req_json = JObj [(''prompt'', JStr ''hi''), (''stream'', JBool False)],
                  req_headers = []\<rparr>"
      and evs = "[Sent ''onyx-api''
                    \<lparr>req_method = ''POST'', req_url = ''http://127.0.0.1:8000/generate'',
                     req_params = None,
                     req_json = JObj [(''prompt'', JStr ''hi''), (''stream'', JBool False)],
                     req_headers = []\<rparr>]"]
    forwarded_error_reaches_caller [where env = rejecting_cache
      and ep = "Resolve_model_checkpoint 8"
      and w = "[]" and i = 1 and upstream = "''artifact-cache-service''"
      and resp = checksum_mismatch
      and req = "\<lparr>req_method = ''POST'', req_url = ''http://127.0.0.1:8002/resolve'',
                  req_params = None,
                  req_json = JObj [(''artifact_uri'', JStr ''s3://ckpt/m8.pt''),
                                   (''sha256'', JStr ''ab12''), (''size_bytes'', JInt 1024)],
                  req_headers = []\<rparr>"
      and evs = "[Sent ''model-registry''
                    \<lparr>req_method = ''GET'', req_url = ''http://127.0.0.1:8001/models/8'',
                     req_params = None, req_json = JNull,
                     req_headers = [(''X-API-Key'', ''registry-key'')]\<rparr>,
                  Sent ''artifact-cache-service''
                    \<lparr>req_method = ''POST'', req_url = ''http://127.0.0.1:8002/resolve'',
                     req_params = None,
                     req_json = JObj [(''artifact_uri'', JStr ''s3://ckpt/m8.pt''),
                                      (''sha256'', JStr ''ab12''), (''size_bytes'', JInt 1024)],
                     req_headers = []\<rparr>]"]
  by (simp add: failing_upstreams_def rejecting_cache_def model_not_found_def
      unavailable_page_def checksum_mismatch_def model_8_def get_model_def onyx_generate_def
      resolve_model_checkpoint_def client_defs)

text \<open>
  C1 as stated does not hold for the calls that \<^verbatim>\<open>GET /health\<close> forwards: the artifact cache
  answers the probe with status 503, and the caller gets a success whose detail for that
  upstream holds the name and the body, but not the status.
\<close>

theorem health_drops_status_counterexample:
  "net mixed_upstreams
     [Sent ''model-registry''
        \<lparr>req_method = ''GET'', req_url = ''http://127.0.0.1:8001/health'',
         req_params = None, req_json = JNull, req_headers = []\<rparr>]
     \<lparr>req_method = ''GET'', req_url = ''http://127.0.0.1:8002/health'',
      req_params = None, req_json = JNull, req_headers = []\<rparr> = Response unavailable_page
   \<and> status_code unavailable_page = 503
   \<and> serve mixed_upstreams Health [] =
     (Inr (JObj
        [(''status'', JStr ''ok''),
         (''registry'', JObj
            [(''url'', JStr ''http://127.0.0.1:8001''),
             (''reachable'', JBool False),
             (''auth_configured'', JBool False),
             (''detail'',
              JStr ''model-registry request failed: All connection attempts failed'')]),
         (''artifact_cache'', JObj
            [(''url'', JStr ''http://127.0.0.1:8002''),
             (''reachable'', JBool False),
             (''auth_configured'', JBool False),
             (''detail'', JObj
                [(''upstream'', JStr ''artifact-cache-service''),
                 (''error'', JObj [(''detail'', JStr ''Service Unavailable'')])])]),
         (''onyx_api'', JObj
            [(''url'', JStr ''http://127.0.0.1:8000''),
             (''reachable'', JBool True),
             (''auth_configured'', JBool True),
             (''detail'', JObj [(''status'', JStr ''ok'')])]),
         (''eval'', JObj
            [(''eval_service_dir'', JStr ''/opt/caiatech-eval-service''),
             (''eval_service_present'', JBool True),
             (''eval_runs_dir'', JStr ''/srv/eval_runs'')])]),
      [Sent ''model-registry''
         \<lparr>req_method = ''GET'', req_url = ''http://127.0.0.1:8001/health'',
          req_params = None, req_json = JNull, req_headers = []\<rparr>,
       Sent ''artifact-cache-service''
         \<lparr>req_method = ''GET'', req_url = ''http://127.0.0.1:8002/health'',
          req_params = None, req_json = JNull, req_headers = []\<rparr>,
       Sent ''onyx-api''
         \<lparr>req_method = ''GET'', req_url = ''http://127.0.0.1:8000/health'',
          req_params = None, req_json = JNull, req_headers = []\<rparr>,
       Probed (Path ''/opt/caiatech-eval-service'')])"
  by (simp add: health_def mixed_upstreams_def unavailable_page_def status_ok_def client_defs)

text \<open>
  C3 as stated does not hold: an upstream that answers 200 with an empty body makes
  the client fail with status 502, since the empty text is not a JSON document and only the
  status 204 is exempt from decoding.
\<close>

theorem empty_body_200_counterexample:
  "status_code empty_ok = 200 \<and> resp_text empty_ok = [] \<and>
   fst (request_upstream empty_ok_upstream ''onyx-api'' ''http://127.0.0.1:8000'' ''GET''
          ''/health'' None JNull [] []) =
     Inl (HTTPException 502
            (JStr ''onyx-api returned invalid JSON: Expecting value: line 1 column 1 (char 0)''))"
  by (simp add: request_upstream_def empty_ok_upstream_def empty_ok_def lab_def routes_def
      decode_table_def)

text \<open>
  C3, amended. When the upstream answers with the status 204, the client returns "no
  content" (\<^verbatim>\<open>None\<close>) as a success. For any other answer with a status below 400 the client
  returns the decoded JSON body, and fails with status 502 ("returned invalid JSON") when
  the body does not decode, whatever the body is.
\<close>

theorem no_content_is_status_204:
  assumes "base_url \<noteq> []"
    and "net env w \<lparr>req_method = meth, req_url = base_url @ path, req_params = params,
                     req_json = json_body, req_headers = headers\<rparr> = Response resp"
    and "status_code resp < 400"
  shows "fst (request_upstream env upstream base_url meth path params json_body headers w) =
         (if status_code resp = 204 then Inr JNull
          else case json_loads env (resp_text resp) of
                 Inr v \<Rightarrow> Inr v
               | Inl e \<Rightarrow>
                   Inl (HTTPException 502 (JStr (upstream @ '' returned invalid JSON: '' @ e))))"
  using assms by (simp add: request_upstream_def Let_def split: sum.split)

theorem no_content_is_status_204_witness:
  "fst (request_upstream healthy_upstreams ''artifact-cache-service'' ''http://127.0.0.1:8002''
          ''GET'' ''/health'' None JNull [] []) = Inr JNull
   \<and> fst (request_upstream healthy_upstreams ''onyx-api'' ''http://127.0.0.1:8000''
            ''GET'' ''/health'' None JNull [] []) = Inr (JObj [(''status'', JStr ''ok'')])"
  using no_content_is_status_204 [where env = healthy_upstreams and w = "[]"
      and base_url = "''http://127.0.0.1:8002''" and path = "''/health''" and meth = "''GET''"
      and params = None and json_body = JNull and headers = "[]" and resp = no_content
      and upstream = "''artifact-cache-service''"]
    no_content_is_status_204 [where env = healthy_upstreams and w = "[]"
      and base_url = "''http://127.0.0.1:8000''" and path = "''/health''" and meth = "''GET''"
      and params = None and json_body = JNull and headers = "[]" and resp = status_ok
      and upstream = "''onyx-api''"]
  by (simp add: healthy_upstreams_def lab_def routes_def decode_table_def no_content_def
      status_ok_def)

subsection \<open>Aggregate health\<close>





subsection \<open>Run identifiers\<close>

lemma contains_single: "contains s [c] \<longleftrightarrow> c \<in> set s"
  by (induction s) auto

lemma in_set_dropWhile: "x \<in> set xs \<Longrightarrow> \<not> P x \<Longrightarrow> x \<in> set (dropWhile P xs)"
  by (induction xs) auto

lemma in_set_strip: "c \<in> set s \<Longrightarrow> \<not> isspace c \<Longrightarrow> c \<in> set (strip s)"
  by (simp add: strip_def in_set_dropWhile)

lemma safe_run_id_rejects:
  assumes "CHR ''/'' \<in> set raw \<or> CHR 0x5C \<in> set raw \<or> CHR 0x00 \<in> set raw"
  shows "safe_run_id raw = Inl (HTTPException 400 (JStr ''Invalid eval_run_id''))"
proof -
  have sp: "\<not> isspace (CHR ''/'')" "\<not> isspace (CHR 0x5C)" "\<not> isspace (CHR 0x00)"
    by (simp_all add: isspace_def)
  from assms sp
  have in_s: "CHR ''/'' \<in> set (strip raw) \<or> CHR 0x5C \<in> set (strip raw) \<or> CHR 0x00 \<in> set (strip raw)"
    using in_set_strip by blast
  then have "strip raw \<noteq> []" by auto
  with in_s show ?thesis
    by (simp add: safe_run_id_def Let_def contains_single)
qed

text \<open>
  C9. A run identifier that holds a slash, a backslash or a null character makes
  \<^verbatim>\<open>GET /api/evals/runs/{id}/summary\<close> and \<^verbatim>\<open>GET /api/evals/runs/{id}/jsonl\<close> fail with
  status 400, and the history is left as it was: no path is built, probed or read.
\<close>

theorem run_id_with_separator_rejected:
  assumes "CHR ''/'' \<in> set eval_run_id \<or> CHR 0x5C \<in> set eval_run_id \<or> CHR 0x00 \<in> set eval_run_id"
  shows "get_eval_summary env eval_run_id w =
           (Inl (HTTPException 400 (JStr ''Invalid eval_run_id'')), w)
       \<and> get_eval_jsonl env eval_run_id w =
           (Inl (HTTPException 400 (JStr ''Invalid eval_run_id'')), w)"
  using safe_run_id_rejects [OF assms]
  by (simp add: get_eval_summary_def get_eval_jsonl_def)

theorem run_id_with_separator_rejected_witness:
  "get_eval_summary (lab [] (routes []) [] idle) ''../secret'' [] =
     (Inl (HTTPException 400 (JStr ''Invalid eval_run_id'')), [])
   \<and> get_eval_jsonl (lab [] (routes []) [] idle) ''../secret'' [] =
     (Inl (HTTPException 400 (JStr ''Invalid eval_run_id'')), [])"
  using run_id_with_separator_rejected [where eval_run_id = "''../secret''"
      and env = "lab [] (routes []) [] idle" and w = "[]"]
  by simp

subsection \<open>Inference pass-through\<close>

lemma map_of_dict_set: "map_of (dict_set d k v) = (map_of d)(k \<mapsto> v)"
  by (simp add: dict_set_def update_conv')

text \<open>
  C10. For a JSON object sent to \<^verbatim>\<open>POST /api/onyx/generate\<close> or \<^verbatim>\<open>POST /api/onyx/chat\<close>,
  the one request issued (when the inference base URL is configured) carries the caller's
  object with the key \<^verbatim>\<open>stream\<close> set to \<^verbatim>\<open>False\<close> and every other key with the value
  the caller gave.
\<close>

theorem generate_and_chat_force_non_streaming:
  "snd (onyx_generate env (JObj d) w) =
     w @ (if ONYX_API_URL env = [] then []
          else [Sent ''onyx-api''
                  \<lparr>req_method = ''POST'', req_url = ONYX_API_URL env @ ''/generate'',
                   req_params = None, req_json = JObj (dict_set d ''stream'' (JBool False)),
                   req_headers = onyx_headers env\<rparr>])
   \<and> snd (onyx_chat env (JObj d) w) =
     w @ (if ONYX_API_URL env = [] then []
          else [Sent ''onyx-api''
                  \<lparr>req_method = ''POST'', req_url = ONYX_API_URL env @ ''/chat'',
                   req_params = None, req_json = JObj (dict_set d ''stream'' (JBool False)),
                   req_headers = onyx_headers env\<rparr>])
   \<and> map_of (dict_set d ''stream'' (JBool False)) = (map_of d)(''stream'' \<mapsto> JBool False)"
  by (simp add: onyx_generate_def onyx_chat_def request_upstream_world map_of_dict_set)

theorem generate_and_chat_force_non_streaming_witness:
  "snd (onyx_generate (lab [] (routes []) [] idle)
          (JObj [(''prompt'', JStr ''hi''), (''stream'', JBool True), (''max_tokens'', JInt 16)])
          []) =
     [Sent ''onyx-api''
        \<lparr>req_method = ''POST'', req_url = ''http://127.0.0.1:8000/generate'',
         req_params = None,
         req_json = JObj [(''prompt'', JStr ''hi''), (''stream'', JBool False),
                          (''max_tokens'', JInt 16)],
         req_headers = []\<rparr>]
   \<and> snd (onyx_chat (lab [] (routes []) [] idle) (JObj [(''messages'', JArr [])]) []) =
     [Sent ''onyx-api''
        \<lparr>req_method = ''POST'', req_url = ''http://127.0.0.1:8000/chat'',
         req_params = None,
         req_json = JObj [(''messages'', JArr []), (''stream'', JBool False)],
         req_headers = []\<rparr>]"
  using generate_and_chat_force_non_streaming [where env = "lab [] (routes []) [] idle"
      and d = "[(''prompt'', JStr ''hi''), (''stream'', JBool True), (''max_tokens'', JInt 16)]"
      and w = "[]"]
    generate_and_chat_force_non_streaming [where env = "lab [] (routes []) [] idle"
      and d = "[(''messages'', JArr [])]" and w = "[]"]
  by (simp add: lab_def dict_set_def onyx_headers_def ONYX_API_URL_def ONYX_API_KEY_def
      api_key_def getenv_or_def clean_base_url_def strip_def isspace_def rstrip_slash_def)


subsection \<open>Checkpoint resolution\<close>

lemma strip_keeps_prefix:
  assumes "prefix p s" "p \<noteq> []" "\<not> isspace (hd p)" "\<not> isspace (last p)"
  shows "prefix p (strip s)"
proof -
  from assms(1) obtain r where s: "s = p @ r" by (auto simp: prefix_def)
  from assms(2) obtain c cs where p: "p = c # cs" by (cases p) auto
  from assms(2) obtain bs b where p': "p = bs @ [b]" by (cases p rule: rev_cases) auto
  have "dropWhile isspace s = s" using s p assms(3) by simp
  moreover have "dropWhile isspace (rev s) = dropWhile isspace (rev r) @ rev p"
    using s p' assms(4) by (simp add: dropWhile_append3)
  ultimately have "strip s = p @ rev (dropWhile isspace (rev r))"
    by (simp add: strip_def)
  then show ?thesis by simp
qed

lemma startswith_strip:
  "startswith uri ''s3://'' \<Longrightarrow> startswith (strip uri) ''s3://''"
  unfolding startswith_def by (rule strip_keeps_prefix) (simp_all add: isspace_def)

lemma registry_request_sent_elsewhere:
  "u \<noteq> ''model-registry'' \<Longrightarrow>
   sent_to u (snd (registry_request env meth path params json_body require_key w)) = sent_to u w"
  by (simp add: registry_request_world sent_to_append)


lemma nonblank_prefix_s3: "startswith uri ''s3://'' \<Longrightarrow> strip uri \<noteq> []"
  using startswith_strip [of uri] by (auto simp: startswith_def)

text \<open>
  C2. Let the registry return a model whose \<^verbatim>\<open>artifact_uri\<close> starts with \<^verbatim>\<open>s3://\<close>. If the
  checksum is missing (absent, null, not a string, or blank) or the size is missing (absent,
  null, not an integer, or negative), the resolution fails with status 400 and the history
  holds no request to the artifact cache beyond those it held before. If both are present,
  the one request issued to the artifact cache (when its base URL is configured) is
  \<^verbatim>\<open>POST /resolve\<close> with exactly the body \<^verbatim>\<open>{artifact_uri, sha256, size_bytes}\<close>, the URI
  without surrounding white space.
\<close>

theorem remote_checkpoint_needs_checksum_and_size:
  assumes fetch: "registry_request env ''GET'' (''/models/'' @ str_int model_id) None JNull True w =
                    (Inr (JObj m), w')"
    and uri: "dict_get m ''artifact_uri'' = JStr uri"
    and s3: "startswith uri ''s3://''"
  shows "(\<not> nonblank_str (dict_get m ''checkpoint_sha256'') \<or>
          \<not> nonneg_int (dict_get m ''checkpoint_size_bytes'') \<longrightarrow>
            resolve_model_checkpoint env model_id w =
              (Inl (HTTPException 400
                      (JStr (if \<not> nonblank_str (dict_get m ''checkpoint_sha256'')
                             then ''Remote artifact requires checkpoint_sha256''
                             else ''Remote artifact requires checkpoint_size_bytes''))), w')
            \<and> sent_to ''artifact-cache-service'' w' = sent_to ''artifact-cache-service'' w)
       \<and> (nonblank_str (dict_get m ''checkpoint_sha256'') \<and>
          nonneg_int (dict_get m ''checkpoint_size_bytes'') \<longrightarrow>
            sent_to ''artifact-cache-service'' (snd (resolve_model_checkpoint env model_id w)) =
              sent_to ''artifact-cache-service'' w
              @ (if ARTIFACT_CACHE_URL env = [] then []
                 else [\<lparr>req_method = ''POST'', req_url = ARTIFACT_CACHE_URL env @ ''/resolve'',
                        req_params = None,
                        req_json = JObj [(''artifact_uri'', JStr (strip uri)),
                                         (''sha256'', dict_get m ''checkpoint_sha256''),
                                         (''size_bytes'',
                                          JInt (py_int (dict_get m ''checkpoint_size_bytes'')))],
                        req_headers = artifact_cache_headers env\<rparr>]))"
proof -
  have w': "sent_to ''artifact-cache-service'' w' = sent_to ''artifact-cache-service'' w"
    using registry_request_sent_elsewhere [of "''artifact-cache-service''" env "''GET''"
        "''/models/'' @ str_int model_id" None JNull True w] fetch
    by simp
  have pre: "nonblank_str (dict_get m ''artifact_uri'')"
    "startswith (strip (str_of (dict_get m ''artifact_uri''))) ''s3://''"
    "strip (str_of (dict_get m ''artifact_uri'')) = strip uri"
    using uri s3 by (simp_all add: nonblank_prefix_s3 startswith_strip)
  show ?thesis
    using fetch pre w'
    by (simp add: resolve_model_checkpoint_def Let_def request_upstream_world sent_to_append)
qed

text \<open>
  C8. Let the registry return a model whose \<^verbatim>\<open>artifact_uri\<close>, read without surrounding white
  space as the handler reads it, holds \<^verbatim>\<open>://\<close> (so it is not a bare path) and starts with
  neither \<^verbatim>\<open>s3://\<close> nor \<^verbatim>\<open>file://\<close>. Then the resolution fails with status 400, naming the
  unsupported scheme, and the history holds no request to the artifact cache beyond those it
  held before.
\<close>

theorem unsupported_scheme_rejected:
  assumes fetch: "registry_request env ''GET'' (''/models/'' @ str_int model_id) None JNull True w =
                    (Inr (JObj m), w')"
    and uri: "dict_get m ''artifact_uri'' = JStr uri"
    and scheme: "contains (strip uri) ''://''"
    and not_s3: "\<not> startswith (strip uri) ''s3://''"
    and not_file: "\<not> startswith (strip uri) ''file://''"
  shows "resolve_model_checkpoint env model_id w =
           (Inl (HTTPException 400
                   (JStr (''Unsupported artifact_uri scheme for resolution: '' @ strip uri))), w')
       \<and> sent_to ''artifact-cache-service'' w' = sent_to ''artifact-cache-service'' w"
proof -
  have w': "sent_to ''artifact-cache-service'' w' = sent_to ''artifact-cache-service'' w"
    using registry_request_sent_elsewhere [of "''artifact-cache-service''" env "''GET''"
        "''/models/'' @ str_int model_id" None JNull True w] fetch
    by simp
  have "strip uri \<noteq> []" using scheme by auto
  then show ?thesis
    using fetch uri scheme not_s3 not_file w'
    by (simp add: resolve_model_checkpoint_def Let_def)
qed


text \<open>The definitions a run on the test bench unfolds.\<close>

lemmas run_defs =
  lab_def routes_def decode_table_def registry_request_def require_registry_key_def request_upstream_def
  REGISTRY_URL_def ARTIFACT_CACHE_URL_def ONYX_API_URL_def REGISTRY_API_KEY_def
  ARTIFACT_CACHE_API_KEY_def ONYX_API_KEY_def api_key_def getenv_or_def clean_base_url_def
  strip_def isspace_def rstrip_slash_def str_int_def dict_get_def startswith_def nonneg_int_def
  artifact_cache_headers_def

theorem remote_checkpoint_needs_checksum_and_size_witness:
  "resolve_model_checkpoint registry_with_models 7 [] =
     (Inl (HTTPException 400 (JStr ''Remote artifact requires checkpoint_sha256'')),
      [Sent ''model-registry''
         \<lparr>req_method = ''GET'', req_url = ''http://127.0.0.1:8001/models/7'',
          req_params = None, req_json = JNull,
          req_headers = [(''X-API-Key'', ''registry-key'')]\<rparr>])
   \<and> sent_to ''artifact-cache-service'' (snd (resolve_model_checkpoint registry_with_models 8 [])) =
     [\<lparr>req_method = ''POST'', req_url = ''http://127.0.0.1:8002/resolve'', req_params = None,
       req_json = JObj [(''artifact_uri'', JStr ''s3://ckpt/m8.pt''), (''sha256'', JStr ''ab12''),
                        (''size_bytes'', JInt 1024)],
       req_headers = []\<rparr>]"
  using remote_checkpoint_needs_checksum_and_size [where env = registry_with_models
      and model_id = 7 and w = "[]" and m = model_7 and uri = "''s3://ckpt/m7.pt''"
      and w' = "[Sent ''model-registry''
         \<lparr>req_method = ''GET'', req_url = ''http://127.0.0.1:8001/models/7'',
          req_params = None, req_json = JNull,
          req_headers = [(''X-API-Key'', ''registry-key'')]\<rparr>]"]
    remote_checkpoint_needs_checksum_and_size [where env = registry_with_models
      and model_id = 8 and w = "[]" and m = model_8 and uri = "''s3://ckpt/m8.pt''"
      and w' = "[Sent ''model-registry''
         \<lparr>req_method = ''GET'', req_url = ''http://127.0.0.1:8001/models/8'',
          req_params = None, req_json = JNull,
          req_headers = [(''X-API-Key'', ''registry-key'')]\<rparr>]"]
  by (simp add: registry_with_models_def model_7_def model_8_def model_9_def run_defs)

theorem unsupported_scheme_rejected_witness:
  "resolve_model_checkpoint registry_with_models 9 [] =
     (Inl (HTTPException 400
             (JStr ''Unsupported artifact_uri scheme for resolution: ftp://host/m9.pt'')),
      [Sent ''model-registry''
         \<lparr>req_method = ''GET'', req_url = ''http://127.0.0.1:8001/models/9'',
          req_params = None, req_json = JNull,
          req_headers = [(''X-API-Key'', ''registry-key'')]\<rparr>])"
  using unsupported_scheme_rejected [where env = registry_with_models
      and model_id = 9 and w = "[]" and m = model_9 and uri = "''ftp://host/m9.pt''"
      and w' = "[Sent ''model-registry''
         \<lparr>req_method = ''GET'', req_url = ''http://127.0.0.1:8001/models/9'',
          req_params = None, req_json = JNull,
          req_headers = [(''X-API-Key'', ''registry-key'')]\<rparr>]"]
  by (simp add: registry_with_models_def model_7_def model_8_def model_9_def run_defs)

subsection \<open>Evaluation runs\<close>

lemma prefix_rev_dropWhile: "prefix (rev (dropWhile P (rev t))) t"
proof -
  have "rev t = takeWhile P (rev t) @ dropWhile P (rev t)" by simp
  then have "t = rev (dropWhile P (rev t)) @ rev (takeWhile P (rev t))"
    by (metis rev_append rev_rev_ident)
  then show ?thesis by (metis prefixI)
qed

lemma hd_prefix: "prefix p t \<Longrightarrow> p \<noteq> [] \<Longrightarrow> hd p = hd t"
  by (auto simp: prefix_def)

lemma hd_strip: "strip s \<noteq> [] \<Longrightarrow> \<not> isspace (hd (strip s))"
proof -
  assume ne: "strip s \<noteq> []"
  let ?t = "dropWhile isspace s"
  have "?t \<noteq> []"
  proof
    assume "?t = []"
    then have "strip s = []" unfolding strip_def by (simp only: rev.simps dropWhile.simps)
    with ne show False by simp
  qed
  then have "\<not> isspace (hd ?t)" by (rule hd_dropWhile)
  moreover have "hd (strip s) = hd ?t"
    using ne prefix_rev_dropWhile [of isspace ?t] by (simp add: strip_def hd_prefix)
  ultimately show ?thesis by simp
qed

lemma strip_nonblank_head: "s \<noteq> [] \<Longrightarrow> \<not> isspace (hd s) \<Longrightarrow> strip s \<noteq> []"
proof -
  assume "s \<noteq> []" "\<not> isspace (hd s)"
  then have "prefix [hd s] (strip s)"
    by (intro strip_keeps_prefix) (cases s; simp)+
  then show ?thesis by auto
qed

lemma clean_base_url_nonblank: "clean_base_url raw \<noteq> [] \<Longrightarrow> strip (clean_base_url raw) \<noteq> []"
proof -
  assume ne: "clean_base_url raw \<noteq> []"
  then have v: "strip raw \<noteq> []" and c: "clean_base_url raw = rstrip_slash (strip raw)"
    by (auto simp: clean_base_url_def Let_def split: if_splits)
  have "hd (clean_base_url raw) = hd (strip raw)"
    using ne c prefix_rev_dropWhile [of "\<lambda>c. c = CHR ''/''" "strip raw"]
    by (simp add: rstrip_slash_def hd_prefix)
  then have "\<not> isspace (hd (clean_base_url raw))" using hd_strip [OF v] by simp
  with ne show ?thesis by (rule strip_nonblank_head)
qed

lemma strip_localhost: "strip ''http://127.0.0.1:8000'' = ''http://127.0.0.1:8000''"
  by (simp add: strip_def isspace_def)

lemma onyx_url_nonblank: "ONYX_API_URL env \<noteq> [] \<Longrightarrow> strip (ONYX_API_URL env) \<noteq> []"
  unfolding ONYX_API_URL_def by (rule clean_base_url_nonblank)

lemma dict_get_dict_set:
  "dict_get (dict_set d k v) k' = (if k' = k then v else dict_get d k')"
  by (simp add: dict_get_def map_of_dict_set)

text \<open>\<^verbatim>\<open>strip\<close> removes white space at both ends and nothing else.\<close>

lemma strip_cut:
  "\<exists>pre post. s = pre @ strip s @ post \<and> list_all isspace pre \<and> list_all isspace post"
proof -
  let ?t = "dropWhile isspace s"
  have a: "s = takeWhile isspace s @ ?t" by simp
  have "rev ?t = takeWhile isspace (rev ?t) @ dropWhile isspace (rev ?t)" by simp
  then have b: "?t = strip s @ rev (takeWhile isspace (rev ?t))"
    unfolding strip_def by (metis rev_append rev_rev_ident)
  have c: "list_all isspace (takeWhile isspace s)"
    by (simp add: list_all_iff) (meson set_takeWhileD)
  have d: "list_all isspace (rev (takeWhile isspace (rev ?t)))"
    by (simp add: list_all_iff) (meson set_takeWhileD)
  from a b have "s = takeWhile isspace s @ strip s @ rev (takeWhile isspace (rev ?t))"
    by simp
  with c d show ?thesis by blast
qed

text \<open>The definitions a run of an evaluation on the test bench unfolds.\<close>

lemmas eval_defs =
  run_eval_command_def eval_service_present_def now_utc_iso_def stamps_def
  tuning_flags_def py_or_def default_inference_url_def replace.simps dict_set_def eval_body_def

text \<open>
  C4 as stated does not hold, in two ways. A runner that exits with code 1 and writes
  \<^verbatim>\<open>model not found\<close> and a line feed to its standard error is reported with the line feed
  taken off, so the stream is not given verbatim. And a runner that exits with code 1 after
  writing bytes that are not text makes \<^verbatim>\<open>subprocess.run\<close> raise; the exception leaves the
  handler, and no envelope with the exit code and the streams is built.
\<close>

theorem failed_run_counterexample:
  "returncode crashed = 1 \<and> stderr crashed = ''model not found'' @ [CHR 0x0A] \<and>
   fst (run_eval crashing_runner (JObj eval_body) []) =
     Inl (HTTPException 502
            (JObj [(''upstream'', JStr ''caiatech-eval-service''),
                   (''returncode'', JInt 1),
                   (''stdout'', JStr []),
                   (''stderr'', JStr ''model not found'')])) \<and>
   subprocess_run garbling_runner
     [Probed (Child (Child (Path ''/opt/caiatech-eval-service'') ''caiatech_eval_service'')
                ''runner.py''),
      Made_dir (Path ''/srv/eval_runs''),
      Now_utc 1714564802000000]
     [''/usr/bin/python3'', ''-m'', ''caiatech_eval_service.runner'',
      ''--registry-url'', ''http://127.0.0.1:8001'', ''--api-key'', ''registry-key'',
      ''--suite'', ''smoke-v1'', ''--model-id'', ''7'',
      ''--inference-url'', ''http://127.0.0.1:8000'',
      ''--eval-runs-dir'', ''/srv/eval_runs'']
     ''/opt/caiatech-eval-service'' =
     Undecodable 1 cannot_decode \<and>
   fst (run_eval garbling_runner (JObj eval_body) []) =
     Inl (Unhandled cannot_decode)"
  by (simp add: run_eval_def crashing_runner_def crashed_def garbling_runner_def garbles_def
      idle_def eval_defs run_defs)

text \<open>
  C4, amended. When \<^verbatim>\<open>subprocess.run\<close> returns the completed evaluation process, its output
  captured as text, and the exit code is not zero, \<^verbatim>\<open>POST /api/evals/run\<close> fails with status
  502 and a detail that holds that exit code and the captured standard output and standard
  error, each without its leading and trailing white space.
\<close>

theorem failed_run_reports_streams:
  assumes "run_eval_command env body w = (Inr cmd, w')"
    and "subprocess_run env (w' @ [Now_utc (clock env w')]) cmd (path_str (EVAL_SERVICE_DIR env)) =
           Completed proc"
    and "returncode proc \<noteq> 0"
  shows "fst (run_eval env body w) =
           Inl (HTTPException 502
                  (JObj [(''upstream'', JStr ''caiatech-eval-service''),
                         (''returncode'', JInt (returncode proc)),
                         (''stdout'', JStr (strip (stdout proc))),
                         (''stderr'', JStr (strip (stderr proc)))]))"
  using assms by (simp add: run_eval_def now_utc_iso_def Let_def)

theorem failed_run_reports_streams_witness:
  "fst (run_eval crashing_runner (JObj eval_body) []) =
     Inl (HTTPException 502
            (JObj [(''upstream'', JStr ''caiatech-eval-service''),
                   (''returncode'', JInt 1),
                   (''stdout'', JStr []),
                   (''stderr'', JStr ''model not found'')]))"
  using failed_run_reports_streams [where env = crashing_runner and body = "JObj eval_body"
      and w = "[]" and proc = crashed
      and cmd = "[''/usr/bin/python3'', ''-m'', ''caiatech_eval_service.runner'',
                  ''--registry-url'', ''http://127.0.0.1:8001'', ''--api-key'', ''registry-key'',
                  ''--suite'', ''smoke-v1'', ''--model-id'', ''7'',
                  ''--inference-url'', ''http://127.0.0.1:8000'',
                  ''--eval-runs-dir'', ''/srv/eval_runs'']"
      and w' = "[Probed (Child (Child (Path ''/opt/caiatech-eval-service'')
                                  ''caiatech_eval_service'') ''runner.py''),
                 Made_dir (Path ''/srv/eval_runs'')]"]
  by (simp add: crashing_runner_def crashed_def eval_defs run_defs)

text \<open>
  C5 as stated does not hold, in two ways. A runner that prints a \<^verbatim>\<open>started_at\<close> of its own
  has that field replaced by the gateway's stamp, so not every field it emitted is in the
  result. And when the wall clock is set back while the runner works, \<^verbatim>\<open>finished_at\<close> is
  earlier than \<^verbatim>\<open>started_at\<close>.
\<close>

theorem stamped_run_counterexample:
  "json_loads stamping_runner (strip (stdout finished_run)) = Inr (JObj emitted) \<and>
   dict_get emitted ''started_at'' = JStr ''2024-04-30T08:00:00Z'' \<and>
   fst (run_eval stamping_runner (JObj eval_body) []) =
     Inr (JObj [(''eval_run_id'', JStr ''run-42''),
                (''started_at'', JStr ''2024-05-01T12:00:02Z''),
                (''finished_at'', JStr ''2024-05-01T12:00:04Z'')]) \<and>
   run_eval set_back_runner (JObj eval_body) [] =
     (Inr (JObj [(''eval_run_id'', JStr ''run-42''), (''passed'', JInt 12),
                 (''started_at'', JStr ''2024-05-01T12:00:04Z''),
                 (''finished_at'', JStr ''2024-05-01T12:00:00Z'')]),
      [Probed (Child (Child (Path ''/opt/caiatech-eval-service'') ''caiatech_eval_service'')
                 ''runner.py''),
       Made_dir (Path ''/srv/eval_runs''),
       Now_utc 1714564804000000,
       Spawned [''/usr/bin/python3'', ''-m'', ''caiatech_eval_service.runner'',
                ''--registry-url'', ''http://127.0.0.1:8001'', ''--api-key'', ''registry-key'',
                ''--suite'', ''smoke-v1'', ''--model-id'', ''7'',
                ''--inference-url'', ''http://127.0.0.1:8000'',
                ''--eval-runs-dir'', ''/srv/eval_runs'']
         ''/opt/caiatech-eval-service'',
       Now_utc 1714564800000000])"
  by (simp add: run_eval_def stamping_runner_def finished_run_def emitted_def
      set_back_runner_def set_back_clock_def scored_run_def eval_defs run_defs)

text \<open>
  C5, amended. When the evaluation process exits with code 0 and prints a JSON object with a
  string \<^verbatim>\<open>eval_run_id\<close>, the result holds that \<^verbatim>\<open>eval_run_id\<close>, every field the process
  emitted under a name other than \<^verbatim>\<open>started_at\<close> and \<^verbatim>\<open>finished_at\<close>, and the two stamps as
  strings: \<^verbatim>\<open>started_at\<close> renders the reading \<open>t0\<close> of the wall clock taken immediately before
  \<^verbatim>\<open>subprocess.run\<close> is called and \<^verbatim>\<open>finished_at\<close> the reading \<open>t1\<close> taken immediately after
  it returns, as the history shows. Read back as instants, \<^verbatim>\<open>finished_at\<close> is not earlier
  than \<^verbatim>\<open>started_at\<close> whenever \<open>t1\<close> is not earlier than \<open>t0\<close>.
\<close>

theorem successful_run_is_stamped:
  assumes "run_eval_command env body w = (Inr cmd, w')"
    and "subprocess_run env (w' @ [Now_utc (clock env w')]) cmd (path_str (EVAL_SERVICE_DIR env)) =
           Completed proc"
    and "returncode proc = 0"
    and "json_loads env (strip (stdout proc)) = Inr (JObj r)"
    and "dict_get r ''eval_run_id'' = JStr rid"
  shows "let t0 = clock env w';
             t1 = clock env (w' @ [Now_utc t0, Spawned cmd (path_str (EVAL_SERVICE_DIR env))]);
             stamp = (\<lambda>t. replace ''+00:00'' ''Z'' (isoformat env t));
             res = dict_set (dict_set r ''started_at'' (JStr (stamp t0)))
                     ''finished_at'' (JStr (stamp t1))
         in run_eval env body w =
              (Inr (JObj res),
               w' @ [Now_utc t0, Spawned cmd (path_str (EVAL_SERVICE_DIR env)), Now_utc t1])
            \<and> dict_get res ''eval_run_id'' = JStr rid
            \<and> (\<forall>k. k \<noteq> ''started_at'' \<and> k \<noteq> ''finished_at'' \<longrightarrow> map_of res k = map_of r k)
            \<and> dict_get res ''started_at'' = JStr (stamp t0)
            \<and> dict_get res ''finished_at'' = JStr (stamp t1)
            \<and> (\<forall>instant. instant (stamp t0) = t0 \<and> instant (stamp t1) = t1 \<and> t0 \<le> t1 \<longrightarrow>
                   instant (str_of (dict_get res ''started_at''))
                     \<le> instant (str_of (dict_get res ''finished_at'')))"
proof -
  have "has_eval_run_id (JObj r)" using assms(5) by simp
  then show ?thesis
    using assms
    by (simp add: run_eval_def now_utc_iso_def Let_def dict_get_dict_set map_of_dict_set)
qed

theorem successful_run_is_stamped_witness:
  "run_eval scoring_runner (JObj eval_body) [] =
     (Inr (JObj [(''eval_run_id'', JStr ''run-42''), (''passed'', JInt 12),
                 (''started_at'', JStr ''2024-05-01T12:00:02Z''),
                 (''finished_at'', JStr ''2024-05-01T12:00:04Z'')]),
      [Probed (Child (Child (Path ''/opt/caiatech-eval-service'') ''caiatech_eval_service'')
                 ''runner.py''),
       Made_dir (Path ''/srv/eval_runs''),
       Now_utc 1714564802000000,
       Spawned [''/usr/bin/python3'', ''-m'', ''caiatech_eval_service.runner'',
                ''--registry-url'', ''http://127.0.0.1:8001'', ''--api-key'', ''registry-key'',
                ''--suite'', ''smoke-v1'', ''--model-id'', ''7'',
                ''--inference-url'', ''http://127.0.0.1:8000'',
                ''--eval-runs-dir'', ''/srv/eval_runs'']
         ''/opt/caiatech-eval-service'',
       Now_utc 1714564804000000])"
  using successful_run_is_stamped [where env = scoring_runner and body = "JObj eval_body"
      and w = "[]" and proc = scored_run and rid = "''run-42''"
      and r = "[(''eval_run_id'', JStr ''run-42''), (''passed'', JInt 12)]"
      and cmd = "[''/usr/bin/python3'', ''-m'', ''caiatech_eval_service.runner'',
                  ''--registry-url'', ''http://127.0.0.1:8001'', ''--api-key'', ''registry-key'',
                  ''--suite'', ''smoke-v1'', ''--model-id'', ''7'',
                  ''--inference-url'', ''http://127.0.0.1:8000'',
                  ''--eval-runs-dir'', ''/srv/eval_runs'']"
      and w' = "[Probed (Child (Child (Path ''/opt/caiatech-eval-service'')
                                  ''caiatech_eval_service'') ''runner.py''),
                 Made_dir (Path ''/srv/eval_runs'')]"]
  by (simp add: scoring_runner_def scored_run_def eval_defs run_defs)

text \<open>
  C6 as stated does not hold: with the inference base URL configured as \<^verbatim>\<open>/\<close>, which
  the configuration cleans to the empty string, a request without \<^verbatim>\<open>inference_url\<close> is not
  rejected; the runner is spawned with \<^verbatim>\<open>http://127.0.0.1:8000\<close>.
\<close>

theorem empty_inference_base_counterexample:
  "ONYX_API_URL no_inference_base = [] \<and> map_of eval_body ''inference_url'' = None \<and>
   fst (run_eval_command no_inference_base (JObj eval_body) []) =
     Inr [''/usr/bin/python3'', ''-m'', ''caiatech_eval_service.runner'',
          ''--registry-url'', ''http://127.0.0.1:8001'', ''--api-key'', ''registry-key'',
          ''--suite'', ''smoke-v1'', ''--model-id'', ''7'',
          ''--inference-url'', ''http://127.0.0.1:8000'',
          ''--eval-runs-dir'', ''/srv/eval_runs''] \<and>
   fst (run_eval no_inference_base (JObj eval_body) []) =
     Inr (JObj [(''eval_run_id'', JStr ''run-42''), (''passed'', JInt 12),
                (''started_at'', JStr ''2024-05-01T12:00:02Z''),
                (''finished_at'', JStr ''2024-05-01T12:00:04Z'')])"
  by (simp add: run_eval_def no_inference_base_def scored_run_def eval_defs run_defs)

text \<open>
  C6, amended. For a request to \<^verbatim>\<open>POST /api/evals/run\<close> whose body omits
  \<^verbatim>\<open>inference_url\<close>, the value defaults to the configured inference base URL (without
  surrounding white space) when that is not empty, and to \<^verbatim>\<open>http://127.0.0.1:8000\<close> when it
  is empty: the request is never rejected for a missing \<^verbatim>\<open>inference_url\<close>, and a command
  that is built passes the default after \<^verbatim>\<open>--inference-url\<close>.
\<close>

theorem inference_url_defaults:
  assumes "map_of d ''inference_url'' = None"
  shows "case fst (run_eval_command env (JObj d) w) of
           Inl e \<Rightarrow> e \<noteq> HTTPException 400 (JStr ''inference_url is required'')
         | Inr cmd \<Rightarrow>
             take 2 (drop 11 cmd) =
               [''--inference-url'',
                if ONYX_API_URL env = [] then ''http://127.0.0.1:8000''
                else strip (ONYX_API_URL env)]"
proof -
  have g: "dict_get d ''inference_url'' = JNull" using assms by (simp add: dict_get_def)
  show ?thesis
    by (auto simp add: run_eval_command_def Let_def g py_or_def eval_service_present_def
        require_registry_key_def default_inference_url_def strip_localhost onyx_url_nonblank
        split: sum.splits option.splits)
qed

theorem inference_url_defaults_witness:
  "map_of eval_body ''inference_url'' = None \<and>
   fst (run_eval_command custom_inference_base (JObj eval_body) []) =
     Inr [''/usr/bin/python3'', ''-m'', ''caiatech_eval_service.runner'',
          ''--registry-url'', ''http://127.0.0.1:8001'', ''--api-key'', ''registry-key'',
          ''--suite'', ''smoke-v1'', ''--model-id'', ''7'',
          ''--inference-url'', ''http://onyx.internal:9000'',
          ''--eval-runs-dir'', ''/srv/eval_runs'']"
  using inference_url_defaults [where d = eval_body and env = custom_inference_base and w = "[]"]
  by (simp add: custom_inference_base_def eval_defs run_defs)

end
